(* ===== verification/Rage_Prelude.thy ===== *)
theory Rage_Prelude
  imports Complex_Main
begin

text \<open>
  Shared vocabulary of the development: how JavaScript values are represented, the
  fact collections the component theories feed to the simplifier, and the generic
  lemmas on clamping, on the integer and fractional part of a number and on lists
  that more than one component needs.

  \<^bold>\<open>Numbers.\<close> Every number of \<^verbatim>\<open>src/script.js\<close> is an IEEE double. The model
  uses \<open>real\<close> for quantities that carry fractions (scroll fractions, percentages,
  scales) and \<open>int\<close> for quantities the script only ever uses as whole numbers (slide
  and strip indices, the results of \<^verbatim>\<open>Math.floor\<close>). \<^verbatim>\<open>Math.floor\<close>,
  \<^verbatim>\<open>Math.min\<close> and \<^verbatim>\<open>Math.max\<close> are HOL's \<open>floor\<close>, \<open>min\<close> and \<open>max\<close>.
  Rounding of doubles is not modelled: theorems speak about the exact values.

  \<^bold>\<open>Failure.\<close> Reading a property of \<^verbatim>\<open>undefined\<close> throws a \<^verbatim>\<open>TypeError\<close>, and
  \<^verbatim>\<open>0 / 0\<close> is the value \<^verbatim>\<open>NaN\<close>; HOL would silently return some list element or
  \<open>0\<close> instead. Both outcomes are therefore explicit: a computation that can meet
  them returns \<open>js_error + 'a\<close>, with \<open>Inl\<close> for the failure.
\<close>

section \<open>Fact collections\<close>

named_theorems slider_defs "definitions of the constants configured at the top of the script"
named_theorems clamp_simps "rewrite rules for clamped values"
named_theorems geom_defs "definitions of the strip geometry"
named_theorems title_defs "definitions of the title state machine's operations"

section \<open>JavaScript outcomes\<close>

datatype js_error = TypeError | NotANumber

type_synonym 'a js_result = "js_error + 'a"

definition returned :: "'a js_result \<Rightarrow> bool" where
  "returned r = (case r of Inl _ \<Rightarrow> False | Inr _ \<Rightarrow> True)"

section \<open>Clamping\<close>

text \<open>
  \<open>clamp lo hi x\<close> is \<^verbatim>\<open>Math.max(lo, Math.min(hi, x))\<close>, the idiom the script uses
  to keep a value inside an interval.
\<close>

definition clamp :: "real \<Rightarrow> real \<Rightarrow> real \<Rightarrow> real" where
  "clamp lo hi x = max lo (min hi x)"

section \<open>Lemmas on outcomes\<close>

lemma returned_simps [simp]:
  "returned (Inr v)" "\<not> returned (Inl e)"
  by (simp_all add: returned_def)

lemma returned_iff: "returned r \<longleftrightarrow> (\<exists>v. r = Inr v)"
  by (cases r) simp_all

section \<open>Lemmas on clamping\<close>

lemma clamp_lower [clamp_simps]: "lo \<le> clamp lo hi x"
  by (simp add: clamp_def)

lemma clamp_upper [clamp_simps]: "lo \<le> hi \<Longrightarrow> clamp lo hi x \<le> hi"
  by (simp add: clamp_def)

lemma clamp_inside [clamp_simps]: "lo \<le> x \<Longrightarrow> x \<le> hi \<Longrightarrow> clamp lo hi x = x"
  by (simp add: clamp_def)

lemma clamp_below [clamp_simps]: "x \<le> lo \<Longrightarrow> clamp lo hi x = lo"
  by (simp add: clamp_def)

lemma clamp_above [clamp_simps]: "lo \<le> hi \<Longrightarrow> hi \<le> x \<Longrightarrow> clamp lo hi x = hi"
  by (simp add: clamp_def)

lemma clamp_mono: "x \<le> y \<Longrightarrow> clamp lo hi x \<le> clamp lo hi y"
  by (auto simp: clamp_def max_def min_def)

lemma clamp_idem: "lo \<le> hi \<Longrightarrow> clamp lo hi (clamp lo hi x) = clamp lo hi x"
  by (auto simp: clamp_def max_def min_def)

lemma clamp_lipschitz: "x \<le> y \<Longrightarrow> clamp lo hi y - clamp lo hi x \<le> y - x"
  by (auto simp: clamp_def max_def min_def)

section \<open>Integer part and sub-progress\<close>

text \<open>
  The script splits a progress value \<open>x\<close> into \<^verbatim>\<open>Math.floor(x)\<close> and
  \<^verbatim>\<open>x - Math.floor(x)\<close>. The second is always in \<open>[0, 1)\<close>, and the split of
  \<open>i + p\<close> with \<open>p\<close> in \<open>[0, 1)\<close> gives \<open>i\<close> and \<open>p\<close> back.
\<close>

lemma sub_floor_nonneg [simp]: "0 \<le> x - of_int \<lfloor>x\<rfloor>" for x :: real
  by linarith

lemma sub_floor_less_one [simp]: "x - of_int \<lfloor>x\<rfloor> < 1" for x :: real
  by linarith

lemma floor_int_plus: "0 \<le> p \<Longrightarrow> p < 1 \<Longrightarrow> \<lfloor>of_int i + p\<rfloor> = i" for p :: real
  by linarith

lemma sub_floor_int_plus:
  "0 \<le> p \<Longrightarrow> p < 1 \<Longrightarrow> (of_int i + p) - of_int \<lfloor>of_int i + p\<rfloor> = p" for p :: real
  using floor_int_plus [of p i] by simp

lemma floor_in_range:
  "0 \<le> x \<Longrightarrow> x \<le> of_int n \<Longrightarrow> 0 \<le> \<lfloor>x\<rfloor> \<and> \<lfloor>x\<rfloor> \<le> n" for x :: real
  by (simp add: floor_le_iff le_floor_iff)

section \<open>Lists\<close>

lemma list_all_nth: "list_all P xs \<Longrightarrow> k < length xs \<Longrightarrow> P (xs ! k)"
  by (simp add: list_all_length)

end
