(* ===== verification/Slider_Config.thy ===== *)
theory Slider_Config
  imports Rage_Prelude
begin

text \<open>
  The input data and the constants that \<^verbatim>\<open>src/script.js\<close> fixes before anything
  runs: the slide list imported from \<^verbatim>\<open>./slides\<close> (a module outside \<^verbatim>\<open>src/\<close>,
  modelled from the specification's data model), the number of strips, the title
  threshold, and the scroll distances from which the total scroll distance of the
  pinned region is computed. Every later theory takes the slide list as a parameter;
  only its length and the titles and links of its entries are ever used.
\<close>

section \<open>Slides\<close>

record slide =
  image :: string
  title :: string
  url :: string

definition totalSlides :: "slide list \<Rightarrow> int" where
  "totalSlides slides = int (length slides)"

section \<open>Constants\<close>

definition stripsCount :: int where
  [slider_defs]: "stripsCount = 25"

definition titleChangeThreshold :: real where
  [slider_defs]: "titleChangeThreshold = 0.5"

definition scrollDistancePerTransition :: real where
  [slider_defs]: "scrollDistancePerTransition = 1000"

definition initialScrollDelay :: real where
  [slider_defs]: "initialScrollDelay = 300"

definition finalScrollDelay :: real where
  [slider_defs]: "finalScrollDelay = 300"

section \<open>Derived quantities\<close>

definition transitionCount :: "slide list \<Rightarrow> int" where
  "transitionCount slides = totalSlides slides - 1"

definition totalScrollDistance :: "slide list \<Rightarrow> real" where
  "totalScrollDistance slides =
     of_int (transitionCount slides) * scrollDistancePerTransition
       + initialScrollDelay + finalScrollDelay"

text \<open>
  The witnesses of the development run on lists of slides whose contents do not
  matter; \<open>blankSlides n\<close> is such a list of length \<open>n\<close>.
\<close>

definition blankSlides :: "nat \<Rightarrow> slide list" where
  "blankSlides n = replicate n \<lparr>image = [], title = [], url = []\<rparr>"

text \<open>
  Where the contents matter (the title shows the text and the link of a slide),
  the witnesses use \<open>sampleSlides\<close>, three slides with different titles and links.
\<close>

definition sampleSlides :: "slide list" where
  "sampleSlides =
     [\<lparr>image = ''/img1.jpg'', title = ''First'', url = ''/first''\<rparr>,
      \<lparr>image = ''/img2.jpg'', title = ''Second'', url = ''/second''\<rparr>,
      \<lparr>image = ''/img3.jpg'', title = ''Third'', url = ''/third''\<rparr>]"

lemma length_blankSlides [simp]: "length (blankSlides n) = n"
  by (simp add: blankSlides_def)

lemma length_sampleSlides [simp]: "length sampleSlides = 3"
  by (simp add: sampleSlides_def)

lemma sampleSlides_first [simp]:
  "title (sampleSlides ! 0) = ''First''" "url (sampleSlides ! 0) = ''/first''"
  by (simp_all add: sampleSlides_def)

lemma sample_not_Nil [simp]: "sampleSlides \<noteq> []"
  by (simp add: sampleSlides_def)

section \<open>Facts about the constants\<close>

lemma distance_positive [simp]: "0 < scrollDistancePerTransition"
  by (simp add: slider_defs)

lemma distance_nonzero [simp]: "scrollDistancePerTransition \<noteq> 0"
  by (simp add: slider_defs)

lemma delays_positive [simp]: "0 < initialScrollDelay" "0 < finalScrollDelay"
  by (simp_all add: slider_defs)

lemma totalSlides_nonneg [simp]: "0 \<le> totalSlides slides"
  by (simp add: totalSlides_def)

lemma transitionCount_nat:
  "slides \<noteq> [] \<Longrightarrow> transitionCount slides = int (length slides - 1)"
  by (cases slides) (simp_all add: transitionCount_def totalSlides_def)

lemma nat_transitionCount [simp]: "nat (transitionCount slides) = length slides - 1"
  by (simp add: transitionCount_def totalSlides_def)

text \<open>
  The total distance is positive as soon as there is one slide. It is never zero,
  not even for the empty list (where it is \<open>-400\<close>), so the percentages of the
  range table are never the result of a division by zero.
\<close>

lemma totalScrollDistance_positive:
  "slides \<noteq> [] \<Longrightarrow> 0 < totalScrollDistance slides"
  by (cases slides) (simp_all add: totalScrollDistance_def transitionCount_def
      totalSlides_def slider_defs add_pos_nonneg)

lemma totalScrollDistance_empty: "totalScrollDistance [] = - 400"
  by (simp add: totalScrollDistance_def transitionCount_def totalSlides_def slider_defs)

lemma totalScrollDistance_nonzero: "totalScrollDistance slides \<noteq> 0"
  using totalScrollDistance_positive [of slides] totalScrollDistance_empty
  by (cases "slides = []") auto

lemma totalScrollDistance_eq:
  "0 < length slides \<Longrightarrow>
   totalScrollDistance slides = 1000 * real (length slides - 1) + 600"
  by (simp add: totalScrollDistance_def transitionCount_nat slider_defs)

end
