(* ===== verification/Transition_Ranges.thy ===== *)
theory Transition_Ranges
  imports Slider_Config
begin

text \<open>
  The transition range table of \<^verbatim>\<open>src/script.js\<close> (lines 71--87): the loop that
  cuts the scroll distance into one window per pair of adjacent slides. The loop is
  \<open>buildRanges\<close>, a recursion on the loop counter with the array and the running
  scroll position as accumulators; \<open>transitionRanges\<close> is the table the script
  ends up with. \<open>rangesFrom\<close> is the reference definition of the same table (range
  \<open>i\<close> starts where range \<open>i - 1\<close> ends), and \<open>wf_ranges\<close> is the contract the
  progress mapper relies on: the table is not empty, every window has a positive
  width, and each window starts exactly where its predecessor ends.
\<close>

section \<open>The table and the loop that builds it\<close>

record TransitionRange =
  transition :: int
  startVh :: real
  endVh :: real
  startPercent :: real
  endPercent :: real

function buildRanges ::
  "int \<Rightarrow> real \<Rightarrow> int \<Rightarrow> real \<Rightarrow> TransitionRange list \<Rightarrow> TransitionRange list" where
  "buildRanges count totalDist i currentScrollPosition acc =
     (if i < count then
        (let transitionStart = currentScrollPosition;
             transitionEnd = transitionStart + scrollDistancePerTransition
         in buildRanges count totalDist (i + 1) transitionEnd
              (acc @ [\<lparr>transition = i,
                       startVh = transitionStart,
                       endVh = transitionEnd,
                       startPercent = transitionStart / totalDist,
                       endPercent = transitionEnd / totalDist\<rparr>]))
      else acc)"
  by pat_completeness auto
termination
  by (relation "measure (\<lambda>(count, totalDist, i, pos, acc). nat (count - i))") auto

declare buildRanges.simps [simp del]

definition transitionRanges :: "slide list \<Rightarrow> TransitionRange list" where
  "transitionRanges slides =
     buildRanges (transitionCount slides) (totalScrollDistance slides) 0
       initialScrollDelay []"

section \<open>Reference definition\<close>

definition rangeAt :: "real \<Rightarrow> int \<Rightarrow> real \<Rightarrow> TransitionRange" where
  "rangeAt totalDist i pos =
     \<lparr>transition = i, startVh = pos, endVh = pos + scrollDistancePerTransition,
      startPercent = pos / totalDist,
      endPercent = (pos + scrollDistancePerTransition) / totalDist\<rparr>"

primrec rangesFrom :: "real \<Rightarrow> int \<Rightarrow> real \<Rightarrow> nat \<Rightarrow> TransitionRange list" where
  "rangesFrom totalDist i pos 0 = []"
| "rangesFrom totalDist i pos (Suc n) =
     rangeAt totalDist i pos
       # rangesFrom totalDist (i + 1) (pos + scrollDistancePerTransition) n"

section \<open>The contract of a table\<close>

fun chained :: "TransitionRange list \<Rightarrow> bool" where
  "chained [] = True"
| "chained [r] = True"
| "chained (r # r' # rs) = (endPercent r = startPercent r' \<and> chained (r' # rs))"

definition wf_ranges :: "TransitionRange list \<Rightarrow> bool" where
  "wf_ranges rs \<longleftrightarrow>
     rs \<noteq> [] \<and> list_all (\<lambda>r. startPercent r < endPercent r) rs \<and> chained rs"

section \<open>The loop computes the reference table\<close>

lemma rangeAt_sel [simp]:
  "transition (rangeAt t i pos) = i"
  "startVh (rangeAt t i pos) = pos"
  "endVh (rangeAt t i pos) = pos + scrollDistancePerTransition"
  "startPercent (rangeAt t i pos) = pos / t"
  "endPercent (rangeAt t i pos) = (pos + scrollDistancePerTransition) / t"
  by (simp_all add: rangeAt_def)

lemma buildRanges_rangesFrom:
  "buildRanges count t i pos acc = acc @ rangesFrom t i pos (nat (count - i))"
proof (induction count t i pos acc rule: buildRanges.induct)
  case (1 count t i pos acc)
  show ?case
  proof (cases "i < count")
    case True
    then have n: "nat (count - i) = Suc (nat (count - (i + 1)))"
      by simp
    from True "1.IH" [OF True refl refl] show ?thesis
      by (subst buildRanges.simps) (simp add: n Let_def rangeAt_def)
  next
    case False
    then show ?thesis
      by (subst buildRanges.simps) simp
  qed
qed

lemma transitionRanges_rangesFrom:
  "transitionRanges slides =
     rangesFrom (totalScrollDistance slides) 0 initialScrollDelay (length slides - 1)"
  by (simp add: transitionRanges_def buildRanges_rangesFrom)

section \<open>Shape of the reference table\<close>

lemma length_rangesFrom [simp]: "length (rangesFrom t i pos n) = n"
  by (induction n arbitrary: i pos) simp_all

lemma rangesFrom_nth:
  "k < n \<Longrightarrow>
   rangesFrom t i pos n ! k =
     rangeAt t (i + int k) (pos + real k * scrollDistancePerTransition)"
proof (induction n arbitrary: i pos k)
  case 0
  then show ?case by simp
next
  case (Suc n)
  show ?case
  proof (cases k)
    case 0
    then show ?thesis by simp
  next
    case (Suc j)
    with Suc.prems have "j < n" by simp
    from Suc.IH [OF this] Suc show ?thesis
      by (simp add: algebra_simps)
  qed
qed

lemma rangesFrom_eq_Nil [simp]: "rangesFrom t i pos n = [] \<longleftrightarrow> n = 0"
  by (cases n) simp_all

lemma hd_rangesFrom: "0 < n \<Longrightarrow> hd (rangesFrom t i pos n) = rangeAt t i pos"
  by (cases n) simp_all

lemma last_rangesFrom:
  "0 < n \<Longrightarrow>
   last (rangesFrom t i pos n) =
     rangeAt t (i + int (n - 1)) (pos + real (n - 1) * scrollDistancePerTransition)"
  by (simp add: last_conv_nth rangesFrom_nth)

lemma chained_rangesFrom: "chained (rangesFrom t i pos n)"
proof (induction n arbitrary: i pos)
  case 0
  show ?case by simp
next
  case (Suc n)
  from Suc [of "i + 1" "pos + scrollDistancePerTransition"] show ?case
    by (cases n) simp_all
qed

lemma positive_rangesFrom:
  "0 < t \<Longrightarrow> list_all (\<lambda>r. startPercent r < endPercent r) (rangesFrom t i pos n)"
  by (induction n arbitrary: i pos) (simp_all add: divide_strict_right_mono)

lemma wf_rangesFrom: "0 < t \<Longrightarrow> 0 < n \<Longrightarrow> wf_ranges (rangesFrom t i pos n)"
  by (simp add: wf_ranges_def chained_rangesFrom positive_rangesFrom)

section \<open>The script's table\<close>

lemma length_transitionRanges [simp]:
  "length (transitionRanges slides) = length slides - 1"
  by (simp add: transitionRanges_rangesFrom)

lemma transitionRanges_nth:
  "k < length slides - 1 \<Longrightarrow>
   transitionRanges slides ! k =
     rangeAt (totalScrollDistance slides) (int k)
       (initialScrollDelay + real k * scrollDistancePerTransition)"
  by (simp add: transitionRanges_rangesFrom rangesFrom_nth)

lemma transitionRanges_Nil [simp]: "transitionRanges slides = [] \<longleftrightarrow> length slides \<le> 1"
  by (auto simp: transitionRanges_rangesFrom)

lemma wf_transitionRanges: "2 \<le> length slides \<Longrightarrow> wf_ranges (transitionRanges slides)"
  unfolding transitionRanges_rangesFrom
  by (rule wf_rangesFrom) (auto intro: totalScrollDistance_positive)

section \<open>Properties of the table\<close>

text \<open>
  \<^bold>\<open>C20.\<close> The loop of the script builds exactly one window per transition, and
  window \<open>k\<close> is numbered \<open>k\<close>, starts at \<open>300 + 1000 k\<close> distance units, is
  \<open>1000\<close> units wide, and carries these two positions divided by the total scroll
  distance as its percentages.
\<close>

theorem transitionRanges_entries:
  assumes "k < length slides - 1"
  shows "length (transitionRanges slides) = length slides - 1 \<and>
    transitionRanges slides ! k =
      \<lparr>transition = int k,
       startVh = 300 + 1000 * real k,
       endVh = 1300 + 1000 * real k,
       startPercent = (300 + 1000 * real k) / totalScrollDistance slides,
       endPercent = (1300 + 1000 * real k) / totalScrollDistance slides\<rparr>"
  using assms
  by (simp add: transitionRanges_nth rangeAt_def slider_defs algebra_simps)

theorem transitionRanges_entries_witness:
  "(1 :: nat) < length (blankSlides 3) - 1 \<and>
   length (transitionRanges (blankSlides 3)) = 2 \<and>
   totalScrollDistance (blankSlides 3) = 2600 \<and>
   transitionRanges (blankSlides 3) ! 0 =
     \<lparr>transition = 0, startVh = 300, endVh = 1300,
      startPercent = 3 / 26, endPercent = 1 / 2\<rparr> \<and>
   transitionRanges (blankSlides 3) ! 1 =
     \<lparr>transition = 1, startVh = 1300, endVh = 2300,
      startPercent = 1 / 2, endPercent = 23 / 26\<rparr>"
  using transitionRanges_entries [of 1 "blankSlides 3"]
    transitionRanges_entries [of 0 "blankSlides 3"]
  by (simp add: totalScrollDistance_eq)

text \<open>
  \<^bold>\<open>C10.\<close> With at least two slides the table is a partition: it is not empty,
  every window has positive width, every window starts where the one before it ends,
  the first window starts after the lead padding of \<open>300\<close> units and the last one
  ends \<open>300\<close> units before the end of the pinned region, so all percentages lie
  strictly between \<open>0\<close> and \<open>1\<close>.
\<close>

theorem transitionRanges_partition:
  assumes "2 \<le> length slides"
  shows "wf_ranges (transitionRanges slides) \<and>
    startPercent (hd (transitionRanges slides)) = 300 / totalScrollDistance slides \<and>
    endPercent (last (transitionRanges slides)) = 1 - 300 / totalScrollDistance slides \<and>
    0 < startPercent (hd (transitionRanges slides)) \<and>
    endPercent (last (transitionRanges slides)) < 1"
proof -
  let ?t = "totalScrollDistance slides"
  from assms have ne: "slides \<noteq> []" and n: "0 < length slides - 1"
    by auto
  from ne have t: "0 < ?t" by (rule totalScrollDistance_positive)
  have hd: "startPercent (hd (transitionRanges slides)) = 300 / ?t"
    using n by (simp add: transitionRanges_rangesFrom hd_rangesFrom slider_defs)
  from ne have "?t = 1000 * real (length slides - 1) + 600"
    by (simp add: totalScrollDistance_eq)
  with n have "300 + real (length slides - 1 - 1) * 1000 + 1000 = ?t - 300"
    by (simp add: of_nat_diff algebra_simps)
  then have "endPercent (last (transitionRanges slides)) = (?t - 300) / ?t"
    using n by (simp add: transitionRanges_rangesFrom last_rangesFrom slider_defs)
  with t have last: "endPercent (last (transitionRanges slides)) = 1 - 300 / ?t"
    by (simp add: diff_divide_distrib)
  from assms hd last t show ?thesis
    by (simp add: wf_transitionRanges)
qed

theorem transitionRanges_partition_witness:
  "(2 :: nat) \<le> length (blankSlides 3) \<and>
   wf_ranges (transitionRanges (blankSlides 3)) \<and>
   startPercent (hd (transitionRanges (blankSlides 3))) = 3 / 26 \<and>
   endPercent (last (transitionRanges (blankSlides 3))) = 23 / 26"
  using transitionRanges_partition [of "blankSlides 3"]
  by (simp add: totalScrollDistance_eq)

end
