(* ===== verification/Progress_Mapper.thy ===== *)
theory Progress_Mapper
  imports Transition_Ranges
begin

text \<open>
  The progress mapper of \<^verbatim>\<open>src/script.js\<close> (lines 89--120):
  \<open>calculateImageProgress\<close> turns the scroll fraction of the pinned region into the
  image progress, a number whose integer part is the base slide and whose fractional
  part is the completion of the transition to the next slide. The table the function
  closes over is its first argument here. \<open>scanRanges\<close> is the \<^verbatim>\<open>for\<close> loop, with
  the loop counter and the variable \<^verbatim>\<open>imageProgress\<close> as arguments; its first
  branch is the \<^verbatim>\<open>break\<close>.

  Two outcomes of the JavaScript are not numbers and are kept apart: reading
  \<^verbatim>\<open>transitionRanges[0].startPercent\<close> from an empty table throws (\<open>TypeError\<close>),
  and a window of width zero makes the interpolation \<^verbatim>\<open>0 / 0\<close> (\<open>NotANumber\<close>).

  \<open>progressSpec\<close> is the contract: the scroll position in distance units, shifted by
  the lead padding, divided by the distance of one transition and clamped to the
  slide range. \<open>scanFirstMatch\<close> is the loop without its fallback branch.
\<close>

section \<open>The mapper\<close>

fun scanRanges :: "TransitionRange list \<Rightarrow> real \<Rightarrow> int \<Rightarrow> real \<Rightarrow> real js_result" where
  "scanRanges [] scrollProgress i imageProgress = Inr imageProgress"
| "scanRanges (rng # rest) scrollProgress i imageProgress =
     (if scrollProgress \<ge> startPercent rng \<and> scrollProgress \<le> endPercent rng then
        (let rangeSize = endPercent rng - startPercent rng in
         if rangeSize = 0 then Inl NotANumber
         else
           (let normalizedProgress = (scrollProgress - startPercent rng) / rangeSize
            in Inr (of_int i + normalizedProgress)))
      else if scrollProgress > endPercent rng then
        scanRanges rest scrollProgress (i + 1) (of_int (i + 1))
      else scanRanges rest scrollProgress (i + 1) imageProgress)"

definition calculateImageProgress :: "TransitionRange list \<Rightarrow> real \<Rightarrow> real js_result" where
  "calculateImageProgress ranges scrollProgress =
     (case ranges of
        [] \<Rightarrow> Inl TypeError
      | first # _ \<Rightarrow>
          if scrollProgress < startPercent first then Inr 0
          else if scrollProgress > endPercent (last ranges) then Inr (real (length ranges))
          else scanRanges ranges scrollProgress 0 0)"

section \<open>Contract and reference loop\<close>

definition progressSpec :: "slide list \<Rightarrow> real \<Rightarrow> real" where
  "progressSpec slides scrollFraction =
     clamp 0 (real (length slides - 1))
       ((scrollFraction * totalScrollDistance slides - initialScrollDelay)
          / scrollDistancePerTransition)"

fun scanFirstMatch :: "TransitionRange list \<Rightarrow> real \<Rightarrow> int \<Rightarrow> real \<Rightarrow> real js_result" where
  "scanFirstMatch [] scrollProgress i imageProgress = Inr imageProgress"
| "scanFirstMatch (rng # rest) scrollProgress i imageProgress =
     (if scrollProgress \<ge> startPercent rng \<and> scrollProgress \<le> endPercent rng then
        (let rangeSize = endPercent rng - startPercent rng in
         if rangeSize = 0 then Inl NotANumber
         else Inr (of_int i + (scrollProgress - startPercent rng) / rangeSize))
      else scanFirstMatch rest scrollProgress (i + 1) imageProgress)"

definition inWindow :: "real \<Rightarrow> TransitionRange \<Rightarrow> bool" where
  "inWindow s r \<longleftrightarrow> startPercent r \<le> s \<and> s \<le> endPercent r"

section \<open>Tables that satisfy the contract\<close>

lemma wf_ranges_Cons:
  "wf_ranges (r # rs) \<longleftrightarrow>
     startPercent r < endPercent r \<and>
     (rs = [] \<or> (endPercent r = startPercent (hd rs) \<and> wf_ranges rs))"
  by (cases rs) (auto simp: wf_ranges_def)

lemma wf_ranges_not_Nil [simp]: "\<not> wf_ranges []"
  by (simp add: wf_ranges_def)

lemma wf_ranges_hd_le_last:
  "wf_ranges rs \<Longrightarrow> startPercent (hd rs) < endPercent (last rs)"
proof (induction rs)
  case Nil
  then show ?case by simp
next
  case (Cons r rs)
  then show ?case
    by (cases "rs = []") (auto simp: wf_ranges_Cons)
qed

text \<open>
  Inside a well-formed table the loop returns a number between the counter it was
  started with and that counter plus the number of windows, whatever the variable
  \<^verbatim>\<open>imageProgress\<close> held.
\<close>

lemma scanRanges_hit:
  assumes "startPercent r < endPercent r" "startPercent r \<le> s" "s \<le> endPercent r"
  shows "scanRanges (r # rs) s i ip =
    Inr (of_int i + (s - startPercent r) / (endPercent r - startPercent r))"
  using assms by (simp add: Let_def)

lemma scanRanges_skip:
  assumes "endPercent r < s"
  shows "scanRanges (r # rs) s i ip = scanRanges rs s (i + 1) (of_int (i + 1))"
  using assms by simp

lemma wf_ranges_tail:
  assumes "wf_ranges (r # rs)" "endPercent r < s" "s \<le> endPercent (last (r # rs))"
  shows "wf_ranges rs" "startPercent (hd rs) \<le> s" "s \<le> endPercent (last rs)"
proof -
  from assms(2,3) have ne: "rs \<noteq> []" by auto
  with assms show "wf_ranges rs" "startPercent (hd rs) \<le> s" "s \<le> endPercent (last rs)"
    by (auto simp: wf_ranges_Cons)
qed

lemma scanRanges_bounds:
  assumes "wf_ranges rs" "startPercent (hd rs) \<le> s" "s \<le> endPercent (last rs)"
  shows "\<exists>v. scanRanges rs s i ip = Inr v \<and> of_int i \<le> v \<and> v \<le> of_int i + real (length rs)"
  using assms
proof (induction rs arbitrary: i ip)
  case Nil
  then show ?case by simp
next
  case (Cons r rs)
  from Cons.prems have pos: "startPercent r < endPercent r" and lo: "startPercent r \<le> s"
    by (simp_all add: wf_ranges_Cons)
  show ?case
  proof (cases "s \<le> endPercent r")
    case True
    with pos lo have "0 \<le> (s - startPercent r) / (endPercent r - startPercent r)"
      and "(s - startPercent r) / (endPercent r - startPercent r) \<le> 1 + real (length rs)"
      by (simp_all add: add_increasing2)
    then show ?thesis
      unfolding scanRanges_hit [OF pos lo True] by simp
  next
    case False
    then have hi: "endPercent r < s" by simp
    from Cons.IH [OF wf_ranges_tail [OF Cons.prems(1) hi Cons.prems(3)], of "i + 1" "of_int (i + 1)"]
    show ?thesis
      unfolding scanRanges_skip [OF hi] by auto
  qed
qed

lemma scanRanges_mono:
  assumes "wf_ranges rs" "startPercent (hd rs) \<le> s" "s \<le> s'" "s' \<le> endPercent (last rs)"
    and "scanRanges rs s i ip = Inr v" "scanRanges rs s' i ip' = Inr v'"
  shows "v \<le> v'"
  using assms
proof (induction rs arbitrary: i ip ip')
  case Nil
  then show ?case by simp
next
  case (Cons r rs)
  from Cons.prems have pos: "startPercent r < endPercent r"
    and lo: "startPercent r \<le> s" "startPercent r \<le> s'"
    by (simp_all add: wf_ranges_Cons)
  show ?case
  proof (cases "s' \<le> endPercent r")
    case True
    with Cons.prems(3) have le: "s \<le> endPercent r" by simp
    from Cons.prems(5,6) pos Cons.prems(3) show ?thesis
      unfolding scanRanges_hit [OF pos lo(1) le] scanRanges_hit [OF pos lo(2) True]
      by (auto simp: divide_right_mono)
  next
    case False
    then have hi: "endPercent r < s'" by simp
    note rs = wf_ranges_tail [OF Cons.prems(1) hi Cons.prems(4)]
    from Cons.prems(6) have v': "scanRanges rs s' (i + 1) (of_int (i + 1)) = Inr v'"
      unfolding scanRanges_skip [OF hi] .
    with scanRanges_bounds [OF rs, of "i + 1" "of_int (i + 1)"]
    have next_le: "of_int i + 1 \<le> v'" by simp
    show ?thesis
    proof (cases "s \<le> endPercent r")
      case True
      with pos lo have "(s - startPercent r) / (endPercent r - startPercent r) \<le> 1"
        by simp
      with Cons.prems(5) next_le show ?thesis
        unfolding scanRanges_hit [OF pos lo(1) True] by simp
    next
      case s: False
      then have lo': "endPercent r < s" by simp
      from Cons.prems(5) have v: "scanRanges rs s (i + 1) (of_int (i + 1)) = Inr v"
        unfolding scanRanges_skip [OF lo'] .
      from Cons.prems(3,4) have "s \<le> endPercent (last (r # rs))" by simp
      from Cons.IH [OF rs(1) wf_ranges_tail(2) [OF Cons.prems(1) lo' this] Cons.prems(3) rs(3) v v']
      show ?thesis .
    qed
  qed
qed

section \<open>The mapper on a well-formed table\<close>

lemma calculateImageProgress_cases:
  assumes "rs \<noteq> []"
  shows "calculateImageProgress rs s =
     (if s < startPercent (hd rs) then Inr 0
      else if s > endPercent (last rs) then Inr (real (length rs))
      else scanRanges rs s 0 0)"
  using assms by (cases rs) (simp_all add: calculateImageProgress_def)

lemma calculateImageProgress_wf_bounds:
  assumes "wf_ranges rs"
  shows "\<exists>v. calculateImageProgress rs s = Inr v \<and> 0 \<le> v \<and> v \<le> real (length rs)"
proof -
  from assms have ne: "rs \<noteq> []" by auto
  show ?thesis
    using scanRanges_bounds [OF assms, of s 0 0]
    by (auto simp: calculateImageProgress_cases [OF ne])
qed

lemma calculateImageProgress_wf_mono:
  assumes wf: "wf_ranges rs" and le: "s \<le> s'"
    and v: "calculateImageProgress rs s = Inr v"
    and v': "calculateImageProgress rs s' = Inr v'"
  shows "v \<le> v'"
proof -
  from wf have ne: "rs \<noteq> []" by auto
  note eq = calculateImageProgress_cases [OF ne]
  from calculateImageProgress_wf_bounds [OF wf, of s] v
  have b: "0 \<le> v" "v \<le> real (length rs)" by auto
  from calculateImageProgress_wf_bounds [OF wf, of s'] v'
  have b': "0 \<le> v'" "v' \<le> real (length rs)" by auto
  consider "s < startPercent (hd rs)" | "endPercent (last rs) < s'"
    | "startPercent (hd rs) \<le> s" "s' \<le> endPercent (last rs)"
    by linarith
  then show ?thesis
  proof cases
    case 1
    with v b' show ?thesis by (simp add: eq)
  next
    case 2
    with wf_ranges_hd_le_last [OF wf] v' b show ?thesis
      by (simp add: eq)
  next
    case 3
    with le v v' have "scanRanges rs s 0 0 = Inr v" "scanRanges rs s' 0 0 = Inr v'"
      by (simp_all add: eq)
    from scanRanges_mono [OF wf 3(1) le 3(2) this] show ?thesis .
  qed
qed

section \<open>The mapper on the script's table\<close>

lemma scanRanges_rangesFrom:
  assumes "0 < t" "0 < n" "pos / t \<le> s"
    and "s \<le> (pos + real n * scrollDistancePerTransition) / t"
  shows "scanRanges (rangesFrom t i pos n) s i ip =
     Inr (of_int i + (s * t - pos) / scrollDistancePerTransition)"
  using assms(2-)
proof (induction n arbitrary: i pos ip)
  case 0
  then show ?case by simp
next
  case (Suc n)
  let ?D = scrollDistancePerTransition
  have D: "0 < ?D" by simp
  have size: "(pos + ?D) / t - pos / t = ?D / t"
    by (simp add: add_divide_distrib)
  show ?case
  proof (cases "s \<le> (pos + ?D) / t")
    case True
    have "(s - pos / t) * t = s * t - pos"
      using \<open>0 < t\<close> by (simp add: left_diff_distrib)
    then have "(s - pos / t) / (?D / t) = (s * t - pos) / ?D"
      by simp
    with True Suc.prems \<open>0 < t\<close> D show ?thesis
      by (simp add: Let_def size)
  next
    case False
    with Suc.prems(3) have n: "0 < n"
      by (cases n) auto
    from False have lo: "(pos + ?D) / t \<le> s" by simp
    from Suc.prems(3) have hi: "s \<le> (pos + ?D + real n * ?D) / t"
      by (simp add: algebra_simps)
    have "of_int (i + 1) + (s * t - (pos + ?D)) / ?D = of_int i + (s * t - pos) / ?D"
      using D by (simp add: field_simps)
    with Suc.IH [OF n lo hi, of "i + 1" "of_int (i + 1)"] False Suc.prems(2) show ?thesis
      by simp
  qed
qed

lemma calculateImageProgress_rangesFrom:
  assumes t: "0 < t" and n: "0 < n"
  shows "calculateImageProgress (rangesFrom t 0 pos n) s =
     Inr (clamp 0 (real n) ((s * t - pos) / scrollDistancePerTransition))"
proof -
  let ?D = scrollDistancePerTransition
  let ?x = "(s * t - pos) / ?D"
  have D: "0 < ?D" by simp
  from n have ne: "rangesFrom t 0 pos n \<noteq> []" by simp
  have hd: "startPercent (hd (rangesFrom t 0 pos n)) = pos / t"
    using n by (simp add: hd_rangesFrom)
  have "pos + real (n - 1) * ?D + ?D = pos + real n * ?D"
    using n by (cases n) (simp_all add: algebra_simps)
  then have last: "endPercent (last (rangesFrom t 0 pos n)) = (pos + real n * ?D) / t"
    using n by (simp add: last_rangesFrom)
  have lo: "s < pos / t \<longleftrightarrow> ?x < 0"
    using t D by (simp add: field_simps)
  have hi: "(pos + real n * ?D) / t < s \<longleftrightarrow> real n < ?x"
    using t D by (simp add: field_simps)
  consider "?x < 0" | "real n < ?x" | "0 \<le> ?x" "?x \<le> real n"
    by linarith
  then show ?thesis
  proof cases
    case 1
    then show ?thesis
      by (simp add: calculateImageProgress_cases [OF ne] hd lo clamp_below)
  next
    case 2
    then have "\<not> ?x < 0" by (meson of_nat_0_le_iff order_less_trans not_less order_less_le_trans)
    with 2 show ?thesis
      by (simp add: calculateImageProgress_cases [OF ne] hd last lo hi clamp_above)
  next
    case 3
    then have "\<not> s < pos / t" "\<not> (pos + real n * ?D) / t < s"
      by (simp_all add: lo hi)
    with 3 scanRanges_rangesFrom [OF t n, of pos s 0 0] show ?thesis
      by (simp add: calculateImageProgress_cases [OF ne] hd last clamp_inside)
  qed
qed

lemma calculateImageProgress_closed:
  "2 \<le> length slides \<Longrightarrow>
   calculateImageProgress (transitionRanges slides) s = Inr (progressSpec slides s)"
  unfolding transitionRanges_rangesFrom progressSpec_def
  by (rule calculateImageProgress_rangesFrom) (auto intro: totalScrollDistance_positive)

lemma progressSpec_bounds:
  "0 \<le> progressSpec slides s" "progressSpec slides s \<le> real (length slides - 1)"
  by (simp_all add: progressSpec_def clamp_simps)

lemma progressSpec_lipschitz:
  assumes "slides \<noteq> []" "s \<le> s'"
  shows "progressSpec slides s' - progressSpec slides s
    \<le> (s' - s) * totalScrollDistance slides / scrollDistancePerTransition"
proof -
  let ?t = "totalScrollDistance slides" and ?D = scrollDistancePerTransition
  let ?x = "(s * ?t - initialScrollDelay) / ?D" and ?y = "(s' * ?t - initialScrollDelay) / ?D"
  from assms(1) have t: "0 < ?t" by (rule totalScrollDistance_positive)
  with assms(2) have "s * ?t \<le> s' * ?t" by simp
  then have "?x \<le> ?y" by (intro divide_right_mono) (simp_all add: less_imp_le)
  then have "clamp 0 (real (length slides - 1)) ?y - clamp 0 (real (length slides - 1)) ?x
      \<le> ?y - ?x"
    by (rule clamp_lipschitz)
  also have "?y - ?x = (s' - s) * ?t / ?D"
    by (simp add: field_simps)
  finally show ?thesis
    by (simp add: progressSpec_def)
qed

lemma progressSpec_zero: "progressSpec slides 0 = 0"
  by (simp add: progressSpec_def clamp_below slider_defs)

lemma progressSpec_one:
  assumes "0 < length slides"
  shows "progressSpec slides 1 = real (length slides - 1)"
  by (simp add: progressSpec_def totalScrollDistance_eq [OF assms] clamp_above slider_defs)

lemma progressSpec_mono:
  assumes "slides \<noteq> []" "s \<le> s'"
  shows "progressSpec slides s \<le> progressSpec slides s'"
  unfolding progressSpec_def
proof (rule clamp_mono)
  from assms have "s * totalScrollDistance slides \<le> s' * totalScrollDistance slides"
    by (simp add: totalScrollDistance_positive)
  then show "(s * totalScrollDistance slides - initialScrollDelay) / scrollDistancePerTransition
      \<le> (s' * totalScrollDistance slides - initialScrollDelay) / scrollDistancePerTransition"
    by (intro divide_right_mono) (simp_all add: less_imp_le)
qed

section \<open>Failures\<close>

lemma scanRanges_not_TypeError: "scanRanges rs s i ip \<noteq> Inl TypeError"
  by (induction rs arbitrary: i ip) (simp_all add: Let_def)

lemma scanRanges_NotANumber:
  "scanRanges rs s i ip = Inl NotANumber \<longleftrightarrow>
     (\<exists>r. find (inWindow s) rs = Some r \<and> startPercent r = endPercent r)"
  by (induction rs arbitrary: i ip) (auto simp: Let_def inWindow_def)

section \<open>Properties of the mapper\<close>

text \<open>
  \<^bold>\<open>C13.\<close> With at least two slides, the mapper returns a number for every scroll
  fraction, the number lies between \<open>0\<close> and the index of the last slide, and a larger
  scroll fraction never gives a smaller image progress.
\<close>

theorem calculateImageProgress_range_monotone:
  assumes "2 \<le> length slides" "s \<le> s'"
  shows "\<exists>v v'. calculateImageProgress (transitionRanges slides) s = Inr v \<and>
    calculateImageProgress (transitionRanges slides) s' = Inr v' \<and>
    0 \<le> v \<and> v \<le> v' \<and> v' \<le> real (length slides - 1)"
proof -
  from assms(1) have "slides \<noteq> []" by auto
  from progressSpec_mono [OF this assms(2)] progressSpec_bounds show ?thesis
    unfolding calculateImageProgress_closed [OF assms(1)] by blast
qed

theorem calculateImageProgress_range_monotone_witness:
  "(2 :: nat) \<le> length (blankSlides 3) \<and> (1 / 5 :: real) \<le> 3 / 5 \<and>
   (\<exists>v v'. calculateImageProgress (transitionRanges (blankSlides 3)) (1 / 5) = Inr v \<and>
     calculateImageProgress (transitionRanges (blankSlides 3)) (3 / 5) = Inr v' \<and>
     0 \<le> v \<and> v \<le> v' \<and> v' \<le> 2)"
  using calculateImageProgress_range_monotone [of "blankSlides 3" "1 / 5" "3 / 5"]
  by simp

text \<open>
  \<^bold>\<open>C2.\<close> The mapper implements its contract, and fails exactly where the contract
  has no table: for a list of fewer than two slides the call throws a
  \<^verbatim>\<open>TypeError\<close>, and otherwise it returns the scroll position in distance units,
  shifted by the lead padding, divided by the length of one transition and clamped to
  the slide range.
\<close>

theorem calculateImageProgress_refines_progressSpec:
  "calculateImageProgress (transitionRanges slides) s =
     (if length slides \<le> 1 then Inl TypeError else Inr (progressSpec slides s))"
proof (cases "length slides \<le> 1")
  case True
  then have "length slides - 1 = 0" by simp
  with True show ?thesis
    by (simp add: calculateImageProgress_def transitionRanges_rangesFrom)
next
  case False
  then show ?thesis
    by (simp add: calculateImageProgress_closed)
qed

text \<open>
  \<^bold>\<open>C35.\<close> At scroll fraction \<open>0\<close> the image progress is exactly \<open>0\<close>, and at scroll
  fraction \<open>1\<close> it is exactly the index of the last slide.
\<close>

theorem calculateImageProgress_endpoints:
  assumes "2 \<le> length slides"
  shows "calculateImageProgress (transitionRanges slides) 0 = Inr 0 \<and>
    calculateImageProgress (transitionRanges slides) 1 = Inr (real (length slides - 1))"
proof -
  from assms have "0 < length slides" by linarith
  with assms show ?thesis
    by (simp add: calculateImageProgress_closed progressSpec_zero progressSpec_one)
qed

theorem calculateImageProgress_endpoints_witness:
  "(2 :: nat) \<le> length (blankSlides 3) \<and>
   calculateImageProgress (transitionRanges (blankSlides 3)) 0 = Inr 0 \<and>
   calculateImageProgress (transitionRanges (blankSlides 3)) 1 = Inr 2"
  using calculateImageProgress_endpoints [of "blankSlides 3"]
  by simp

text \<open>
  \<^bold>\<open>C21.\<close> The contract of the mapper for any table: if the table is not empty, its
  windows have positive width and each starts where the one before ends, then the
  mapper returns a number for every scroll fraction, between \<open>0\<close> and the number of
  windows, and is monotone.
\<close>

theorem calculateImageProgress_contract:
  assumes "wf_ranges rs" "s \<le> s'"
  shows "\<exists>v v'. calculateImageProgress rs s = Inr v \<and> calculateImageProgress rs s' = Inr v' \<and>
    0 \<le> v \<and> v \<le> v' \<and> v' \<le> real (length rs)"
proof -
  from calculateImageProgress_wf_bounds [OF assms(1), of s]
  obtain v where v: "calculateImageProgress rs s = Inr v" "0 \<le> v"
    by blast
  from calculateImageProgress_wf_bounds [OF assms(1), of s']
  obtain v' where v': "calculateImageProgress rs s' = Inr v'" "v' \<le> real (length rs)"
    by blast
  from calculateImageProgress_wf_mono [OF assms v(1) v'(1)] v v' show ?thesis
    by simp
qed

theorem calculateImageProgress_contract_witness:
  "wf_ranges (transitionRanges (blankSlides 4)) \<and> (1 / 4 :: real) \<le> 3 / 4 \<and>
   (\<exists>v v'. calculateImageProgress (transitionRanges (blankSlides 4)) (1 / 4) = Inr v \<and>
     calculateImageProgress (transitionRanges (blankSlides 4)) (3 / 4) = Inr v' \<and>
     0 \<le> v \<and> v \<le> v' \<and> v' \<le> 3)"
  using calculateImageProgress_contract [of "transitionRanges (blankSlides 4)" "1 / 4" "3 / 4"]
  by (simp add: wf_transitionRanges)

text \<open>
  \<^bold>\<open>C22.\<close> The two ways the mapper can fail to return a number, for any table: it
  throws a \<^verbatim>\<open>TypeError\<close> exactly when the table is empty, and it produces
  \<^verbatim>\<open>NaN\<close> exactly when the scroll fraction is inside the table and the first window
  that contains it has width zero.
\<close>

theorem calculateImageProgress_failures:
  "(calculateImageProgress rs s = Inl TypeError \<longleftrightarrow> rs = []) \<and>
   (calculateImageProgress rs s = Inl NotANumber \<longleftrightarrow>
      rs \<noteq> [] \<and> startPercent (hd rs) \<le> s \<and> s \<le> endPercent (last rs) \<and>
      (\<exists>r. find (inWindow s) rs = Some r \<and> startPercent r = endPercent r))"
proof (cases rs)
  case Nil
  then show ?thesis by (simp add: calculateImageProgress_def)
next
  case (Cons r rest)
  then have ne: "rs \<noteq> []" by simp
  show ?thesis
    unfolding calculateImageProgress_cases [OF ne]
    using ne by (auto simp: scanRanges_not_TypeError scanRanges_NotANumber)
qed

text \<open>
  \<^bold>\<open>C37.\<close> On a well-formed table and a scroll fraction inside it, the loop with
  its fallback branch (\<^verbatim>\<open>else if (scrollProgress > range.endPercent)\<close>) and the
  loop without it return the same result, whatever the variable \<^verbatim>\<open>imageProgress\<close>
  holds on entry: the value the fallback assigns is always overwritten by a later
  window that contains the scroll fraction.
\<close>


theorem scanRanges_fallback_redundant:
  assumes "wf_ranges rs" "startPercent (hd rs) \<le> s" "s \<le> endPercent (last rs)"
  shows "scanRanges rs s i ip = scanFirstMatch rs s i ip'"
  using assms
proof (induction rs arbitrary: i ip ip')
  case Nil
  then show ?case by simp
next
  case (Cons r rs)
  show ?case
  proof (cases "s \<le> endPercent r")
    case True
    with Cons.prems show ?thesis
      by (simp add: wf_ranges_Cons Let_def)
  next
    case False
    with Cons.prems have ne: "rs \<noteq> []"
      by auto
    with False Cons.prems have rs: "wf_ranges rs" "startPercent (hd rs) \<le> s"
      "s \<le> endPercent (last rs)"
      by (auto simp: wf_ranges_Cons)
    from Cons.IH [OF rs] False show ?thesis
      by simp
  qed
qed

theorem scanRanges_fallback_redundant_witness:
  "wf_ranges (transitionRanges (blankSlides 3)) \<and>
   startPercent (hd (transitionRanges (blankSlides 3))) \<le> 7 / 10 \<and>
   7 / 10 \<le> endPercent (last (transitionRanges (blankSlides 3))) \<and>
   scanRanges (transitionRanges (blankSlides 3)) (7 / 10) 0 0 =
     scanFirstMatch (transitionRanges (blankSlides 3)) (7 / 10) 0 5"
  using scanRanges_fallback_redundant [of "transitionRanges (blankSlides 3)" "7 / 10" 0 0 5]
  by (simp add: wf_rangesFrom transitionRanges_rangesFrom hd_rangesFrom
      last_rangesFrom totalScrollDistance_eq slider_defs)

text \<open>
  \<^bold>\<open>C36.\<close> The image progress has no jumps: between two scroll fractions it grows by
  at most their difference times the number of transitions that fit into the total
  scroll distance.
\<close>

theorem calculateImageProgress_lipschitz:
  assumes "2 \<le> length slides" "s \<le> s'"
    and "calculateImageProgress (transitionRanges slides) s = Inr v"
    and "calculateImageProgress (transitionRanges slides) s' = Inr v'"
  shows "v' - v \<le> (s' - s) * totalScrollDistance slides / scrollDistancePerTransition"
proof -
  from assms(1) have "slides \<noteq> []" by auto
  from progressSpec_lipschitz [OF this assms(2)] assms show ?thesis
    by (simp add: calculateImageProgress_closed)
qed

theorem calculateImageProgress_lipschitz_witness:
  "(2 :: nat) \<le> length (blankSlides 3) \<and> (1 / 5 :: real) \<le> 3 / 5 \<and>
   calculateImageProgress (transitionRanges (blankSlides 3)) (1 / 5) = Inr (11 / 50) \<and>
   calculateImageProgress (transitionRanges (blankSlides 3)) (3 / 5) = Inr (63 / 50) \<and>
   (63 / 50 - 11 / 50 :: real)
     \<le> (3 / 5 - 1 / 5) * totalScrollDistance (blankSlides 3) / scrollDistancePerTransition"
proof -
  have a: "calculateImageProgress (transitionRanges (blankSlides 3)) (1 / 5) = Inr (11 / 50)"
    by (simp add: calculateImageProgress_closed progressSpec_def totalScrollDistance_eq
        clamp_def slider_defs)
  have b: "calculateImageProgress (transitionRanges (blankSlides 3)) (3 / 5) = Inr (63 / 50)"
    by (simp add: calculateImageProgress_closed progressSpec_def totalScrollDistance_eq
        clamp_def slider_defs)
  from calculateImageProgress_lipschitz [OF _ _ a b] a b show ?thesis
    by simp
qed

end
