(* ===== verification/Strip_Geometry.thy ===== *)
theory Strip_Geometry
  imports Slider_Config
begin

text \<open>
  The clip-path geometry of the strips, \<^verbatim>\<open>src/script.js\<close> lines 45--52 (the
  geometry builder) and 242--277 (the three zones of the update handler). A slide
  image is cut into \<open>stripsCount = 25\<close> horizontal bands; strip \<open>j\<close> owns the band
  between \<open>stripUpperBound j\<close> and \<open>stripLowerBound j\<close> (percentages measured from the
  top of the image, so the lower bound is the larger number and strip \<open>0\<close> is the
  bottom band). Its clip path is the template string
  \<^verbatim>\<open>polygon(0% L%, 100% L%, 100% U%, 0% U%)\<close>, modelled as the list of its four
  corner points.

  \<open>stripClip\<close> is the body of the three \<^verbatim>\<open>forEach\<close> callbacks: fully open when the
  transition of the container is over, fully closed when it has not started, and in
  between opening from the lower edge upwards, each strip delayed by
  \<open>stripDelay j\<close>. \<open>clipAt\<close> is the call pattern of the handler, which derives the
  current image index and the sub-progress from one image progress, and \<open>clipSpec\<close>
  is the contract: one clamped linear function of the image progress for all three
  zones.
\<close>

section \<open>Bands\<close>

type_synonym polygon = "(real \<times> real) list"

definition stripPositionFromBottom :: "int \<Rightarrow> int" where
  [geom_defs]: "stripPositionFromBottom stripIndex = stripsCount - stripIndex - 1"

definition stripLowerBound :: "int \<Rightarrow> real" where
  [geom_defs]: "stripLowerBound stripIndex =
     of_int (stripPositionFromBottom stripIndex + 1) * (100 / of_int stripsCount)"

definition stripUpperBound :: "int \<Rightarrow> real" where
  [geom_defs]: "stripUpperBound stripIndex =
     of_int (stripPositionFromBottom stripIndex) * (100 / of_int stripsCount)"

definition bandPolygon :: "real \<Rightarrow> real \<Rightarrow> polygon" where
  "bandPolygon lower upper = [(0, lower), (100, lower), (100, upper), (0, upper)]"

section \<open>The three zones\<close>

definition openClip :: "int \<Rightarrow> polygon" where
  "openClip stripIndex =
     bandPolygon (stripLowerBound stripIndex) (stripUpperBound stripIndex - 0.1)"

definition closedClip :: "int \<Rightarrow> polygon" where
  "closedClip stripIndex =
     bandPolygon (stripLowerBound stripIndex) (stripLowerBound stripIndex)"

definition stripDelay :: "int \<Rightarrow> real" where
  [geom_defs]: "stripDelay stripIndex = (of_int stripIndex / of_int stripsCount) * 0.5"

definition adjustedProgress :: "int \<Rightarrow> real \<Rightarrow> real" where
  "adjustedProgress stripIndex imageSpecificProgress =
     max 0 (min 1 ((imageSpecificProgress - stripDelay stripIndex) * 2))"

definition currentstripUpperBound :: "int \<Rightarrow> real \<Rightarrow> real" where
  "currentstripUpperBound stripIndex imageSpecificProgress =
     stripLowerBound stripIndex
       - (stripLowerBound stripIndex - (stripUpperBound stripIndex - 0.1))
           * adjustedProgress stripIndex imageSpecificProgress"

definition activeClip :: "int \<Rightarrow> real \<Rightarrow> polygon" where
  "activeClip stripIndex imageSpecificProgress =
     bandPolygon (stripLowerBound stripIndex)
       (currentstripUpperBound stripIndex imageSpecificProgress)"

definition stripClip :: "int \<Rightarrow> int \<Rightarrow> real \<Rightarrow> int \<Rightarrow> polygon" where
  "stripClip transitionIndex currentImageIndex imageSpecificProgress stripIndex =
     (if transitionIndex < currentImageIndex then openClip stripIndex
      else if transitionIndex = currentImageIndex then
        activeClip stripIndex imageSpecificProgress
      else closedClip stripIndex)"

definition clipAt :: "int \<Rightarrow> real \<Rightarrow> int \<Rightarrow> polygon" where
  "clipAt transitionIndex imageProgress stripIndex =
     (let currentImageIndex = \<lfloor>imageProgress\<rfloor>;
          imageSpecificProgress = imageProgress - of_int currentImageIndex
      in stripClip transitionIndex currentImageIndex imageSpecificProgress stripIndex)"

section \<open>Contract\<close>

definition revealed :: "int \<Rightarrow> real \<Rightarrow> int \<Rightarrow> real" where
  "revealed transitionIndex imageProgress stripIndex =
     clamp 0 1 ((imageProgress - of_int transitionIndex - of_int stripIndex / 50) * 2)"

definition edgeAt :: "int \<Rightarrow> real \<Rightarrow> int \<Rightarrow> real" where
  "edgeAt transitionIndex imageProgress stripIndex =
     100 - 4 * of_int stripIndex
       - (41 / 10) * revealed transitionIndex imageProgress stripIndex"

definition clipSpec :: "int \<Rightarrow> real \<Rightarrow> int \<Rightarrow> polygon" where
  "clipSpec transitionIndex imageProgress stripIndex =
     bandPolygon (100 - 4 * of_int stripIndex)
       (edgeAt transitionIndex imageProgress stripIndex)"

definition validStrip :: "int \<Rightarrow> bool" where
  "validStrip stripIndex \<longleftrightarrow> 0 \<le> stripIndex \<and> stripIndex < stripsCount"

section \<open>Closed forms of the bands\<close>

lemma stripLowerBound_eq: "stripLowerBound j = 100 - 4 * of_int j"
  by (simp add: geom_defs slider_defs algebra_simps)

lemma stripUpperBound_eq: "stripUpperBound j = 96 - 4 * of_int j"
  by (simp add: geom_defs slider_defs algebra_simps)

lemma stripDelay_eq: "stripDelay j = of_int j / 50"
  by (simp add: geom_defs slider_defs)

lemmas band_eqs = stripLowerBound_eq stripUpperBound_eq stripDelay_eq

lemma validStrip_real:
  "validStrip j \<Longrightarrow> 0 \<le> real_of_int j \<and> real_of_int j \<le> 24"
  by (simp add: validStrip_def slider_defs)

lemma bandPolygon_eq_iff [simp]:
  "bandPolygon l u = bandPolygon l' u' \<longleftrightarrow> l = l' \<and> u = u'"
  by (auto simp: bandPolygon_def)

lemma length_bandPolygon [simp]: "length (bandPolygon l u) = 4"
  by (simp add: bandPolygon_def)

section \<open>Local progress of a strip\<close>

lemma adjustedProgress_clamp:
  "adjustedProgress j p = clamp 0 1 ((p - of_int j / 50) * 2)"
  by (simp add: adjustedProgress_def clamp_def stripDelay_eq)

lemma adjustedProgress_bounds [simp]:
  "0 \<le> adjustedProgress j p" "adjustedProgress j p \<le> 1"
  by (simp_all add: adjustedProgress_def)

lemma adjustedProgress_mono: "p \<le> q \<Longrightarrow> adjustedProgress j p \<le> adjustedProgress j q"
  unfolding adjustedProgress_clamp by (rule clamp_mono) simp

lemma adjustedProgress_stagger:
  "j \<le> k \<Longrightarrow> adjustedProgress k p \<le> adjustedProgress j p"
  unfolding adjustedProgress_clamp by (rule clamp_mono) (simp add: divide_right_mono)

lemma adjustedProgress_zero: "p \<le> stripDelay j \<Longrightarrow> adjustedProgress j p = 0"
  by (simp add: adjustedProgress_def)

lemma adjustedProgress_one: "stripDelay j + 1 / 2 \<le> p \<Longrightarrow> adjustedProgress j p = 1"
  by (simp add: adjustedProgress_def min_def)

lemma adjustedProgress_eq_0_iff: "adjustedProgress j p = 0 \<longleftrightarrow> p \<le> of_int j / 50"
  by (auto simp: adjustedProgress_def stripDelay_eq min_def max_def split: if_splits)

lemma adjustedProgress_eq_1_iff: "adjustedProgress j p = 1 \<longleftrightarrow> of_int j / 50 + 1 / 2 \<le> p"
  by (auto simp: adjustedProgress_def stripDelay_eq min_def max_def split: if_splits)

lemma adjustedProgress_lag:
  assumes "j \<le> k"
  shows "adjustedProgress j p - adjustedProgress k p \<le> of_int (k - j) / 25"
proof -
  from assms have "(p - real_of_int k / 50) * 2 \<le> (p - real_of_int j / 50) * 2"
    by (simp add: divide_right_mono)
  from clamp_lipschitz [OF this, of 0 1] show ?thesis
    unfolding adjustedProgress_clamp by (simp add: field_simps)
qed

lemma currentstripUpperBound_eq:
  "currentstripUpperBound j p = 100 - 4 * of_int j - (41 / 10) * adjustedProgress j p"
  by (simp add: currentstripUpperBound_def band_eqs algebra_simps)

section \<open>The zones in terms of the image progress\<close>

lemma openClip_eq: "openClip j = bandPolygon (100 - 4 * of_int j) (959 / 10 - 4 * of_int j)"
  by (simp add: openClip_def band_eqs)

lemma closedClip_eq: "closedClip j = bandPolygon (100 - 4 * of_int j) (100 - 4 * of_int j)"
  by (simp add: closedClip_def band_eqs)

lemma activeClip_eq:
  "activeClip j p =
     bandPolygon (100 - 4 * of_int j) (100 - 4 * of_int j - (41 / 10) * adjustedProgress j p)"
  by (simp add: activeClip_def currentstripUpperBound_eq stripLowerBound_eq)

lemma revealed_past:
  assumes "validStrip j" "of_int t + 1 \<le> x"
  shows "revealed t x j = 1"
proof -
  from validStrip_real [OF assms(1)] have "real_of_int j / 50 \<le> 24 / 50"
    by simp
  with assms(2) have "1 \<le> (x - of_int t - of_int j / 50) * 2"
    by simp
  then show ?thesis
    unfolding revealed_def by (intro clamp_above) simp_all
qed

lemma revealed_future:
  assumes "validStrip j" "x \<le> of_int t"
  shows "revealed t x j = 0"
proof -
  from validStrip_real [OF assms(1)] have "0 \<le> real_of_int j / 50"
    by simp
  with assms(2) have "(x - of_int t - of_int j / 50) * 2 \<le> 0"
    by simp
  then show ?thesis
    unfolding revealed_def by (rule clamp_below)
qed

lemma revealed_active:
  "revealed t x j = adjustedProgress j (x - of_int t)"
  by (simp add: revealed_def adjustedProgress_clamp)

lemma clipAt_clipSpec_aux:
  assumes j: "validStrip j" and c: "c = \<lfloor>x\<rfloor>"
  shows "stripClip t c (x - of_int c) j = clipSpec t x j"
proof -
  consider (past) "t < c" | (active) "t = c" | (future) "c < t"
    by linarith
  then show ?thesis
  proof cases
    case past
    then have "real_of_int t + 1 \<le> of_int c" by linarith
    with c have "of_int t + 1 \<le> x" by linarith
    from revealed_past [OF j this] past show ?thesis
      by (simp add: stripClip_def clipSpec_def edgeAt_def openClip_eq)
  next
    case active
    then show ?thesis
      by (simp add: stripClip_def clipSpec_def edgeAt_def activeClip_eq revealed_active)
  next
    case future
    then have "real_of_int c + 1 \<le> of_int t" by linarith
    with c have "x \<le> of_int t" by linarith
    from revealed_future [OF j this] future show ?thesis
      by (simp add: stripClip_def clipSpec_def edgeAt_def closedClip_eq)
  qed
qed

lemma clipAt_eq_clipSpec: "validStrip j \<Longrightarrow> clipAt t x j = clipSpec t x j"
  unfolding clipAt_def Let_def by (rule clipAt_clipSpec_aux) simp_all

lemma clipAt_past:
  "validStrip j \<Longrightarrow> of_int t + 1 \<le> x \<Longrightarrow> clipAt t x j = openClip j"
  by (simp add: clipAt_eq_clipSpec clipSpec_def edgeAt_def revealed_past openClip_eq)

lemma clipAt_future:
  "validStrip j \<Longrightarrow> x \<le> of_int t \<Longrightarrow> clipAt t x j = closedClip j"
  by (simp add: clipAt_eq_clipSpec clipSpec_def edgeAt_def revealed_future closedClip_eq)

lemma revealed_bounds [simp]: "0 \<le> revealed t x j" "revealed t x j \<le> 1"
  by (simp_all add: revealed_def clamp_simps)

lemma revealed_mono: "x \<le> y \<Longrightarrow> revealed t x j \<le> revealed t y j"
  unfolding revealed_def by (rule clamp_mono) simp

lemma revealed_lipschitz: "x \<le> y \<Longrightarrow> revealed t y j - revealed t x j \<le> 2 * (y - x)"
  unfolding revealed_def
  using clamp_lipschitz [of "(x - of_int t - of_int j / 50) * 2"
      "(y - of_int t - of_int j / 50) * 2" 0 1]
  by (simp add: algebra_simps)

lemma edgeAt_antimono: "x \<le> y \<Longrightarrow> edgeAt t y j \<le> edgeAt t x j"
  using revealed_mono [of x y t j] by (simp add: edgeAt_def)

lemma edgeAt_lipschitz: "x \<le> y \<Longrightarrow> edgeAt t x j - edgeAt t y j \<le> (41 / 5) * (y - x)"
  using revealed_lipschitz [of x y t j] by (simp add: edgeAt_def)

lemma clipAt_band:
  "validStrip j \<Longrightarrow> clipAt t x j = bandPolygon (100 - 4 * of_int j) (edgeAt t x j)"
  by (simp add: clipAt_eq_clipSpec clipSpec_def)

section \<open>Properties of the strip geometry\<close>

text \<open>
  \<^bold>\<open>C7.\<close> The three zones of the renderer are one continuous function of the
  image progress. For each of the 25 strips the clip path computed by the handler is
  the band polygon whose lower edge is fixed at \<open>100 - 4 j\<close> percent and whose upper
  edge is \<open>edgeAt\<close>, the lower edge minus \<open>4.1\<close> percent times the clamped local
  progress of the strip; the edge only moves upwards as the image progress grows, and
  by at most \<open>8.2\<close> percent per unit of image progress, so there is no jump where
  a container changes zone.
\<close>

theorem clipAt_refines_clipSpec:
  assumes "validStrip j" "x \<le> y"
  shows "clipAt t x j = bandPolygon (100 - 4 * of_int j) (edgeAt t x j) \<and>
    clipAt t y j = bandPolygon (100 - 4 * of_int j) (edgeAt t y j) \<and>
    edgeAt t y j \<le> edgeAt t x j \<and>
    edgeAt t x j - edgeAt t y j \<le> (41 / 5) * (y - x)"
  using assms(1) edgeAt_antimono [OF assms(2), of t j] edgeAt_lipschitz [OF assms(2), of t j]
  by (simp add: clipAt_band)

theorem clipAt_refines_clipSpec_witness:
  "validStrip 10 \<and> (6 / 5 :: real) \<le> 13 / 10 \<and>
   clipAt 1 (6 / 5) 10 = bandPolygon 60 60 \<and>
   clipAt 1 (13 / 10) 10 = bandPolygon 60 (5918 / 100) \<and>
   (60 :: real) - 5918 / 100 \<le> (41 / 5) * (13 / 10 - 6 / 5)"
  using clipAt_refines_clipSpec [of 10 "6 / 5" "13 / 10" 1]
  by (simp add: validStrip_def slider_defs edgeAt_def revealed_def clamp_def)

text \<open>
  \<^bold>\<open>C26.\<close> The bands of the 25 strips tile the image: every band lies inside
  \<open>[0, 100]\<close> percent and is exactly \<open>4\<close> percent high, the band of strip
  \<open>j + 1\<close> ends where the band of strip \<open>j\<close> begins, strip \<open>0\<close> reaches the bottom
  of the image and strip \<open>24\<close> the top.
\<close>

theorem strip_bands_tile:
  assumes "validStrip j"
  shows "0 \<le> stripUpperBound j \<and> stripLowerBound j \<le> 100 \<and>
    stripLowerBound j - stripUpperBound j = 4 \<and>
    stripLowerBound (j + 1) = stripUpperBound j \<and>
    stripLowerBound 0 = 100 \<and> stripUpperBound 24 = 0"
  using validStrip_real [OF assms] by (simp add: band_eqs)

theorem strip_bands_tile_witness:
  "validStrip 24 \<and> stripUpperBound 24 = 0 \<and> stripLowerBound 24 = 4 \<and>
   stripLowerBound 25 = stripUpperBound 24"
  using strip_bands_tile [of 24]
  by (simp add: validStrip_def slider_defs band_eqs)

text \<open>
  \<^bold>\<open>C27.\<close> Within the active transition a strip is still closed until the
  sub-progress passes its delay \<open>j / 50\<close> and is fully open half a transition later;
  in particular at sub-progress \<open>0\<close> every strip is closed and from sub-progress
  \<open>0.98\<close> on every strip is open, so the active zone meets the other two zones at
  both ends.
\<close>

theorem activeClip_meets_zones:
  assumes "validStrip j"
  shows "(p \<le> of_int j / 50 \<longrightarrow> stripClip t t p j = closedClip j) \<and>
    (of_int j / 50 + 1 / 2 \<le> p \<longrightarrow> stripClip t t p j = openClip j) \<and>
    stripClip t t 0 j = closedClip j \<and>
    (49 / 50 \<le> p \<longrightarrow> stripClip t t p j = openClip j)"
proof -
  from validStrip_real [OF assms] have j: "0 \<le> real_of_int j / 50" "real_of_int j / 50 \<le> 24 / 50"
    by simp_all
  have closed: "stripClip t t q j = closedClip j" if "q \<le> of_int j / 50" for q
    using that by (simp add: stripClip_def activeClip_eq closedClip_eq
        adjustedProgress_zero stripDelay_eq)
  have opened: "stripClip t t q j = openClip j" if "of_int j / 50 + 1 / 2 \<le> q" for q
    using that by (simp add: stripClip_def activeClip_eq openClip_eq
        adjustedProgress_one stripDelay_eq)
  from j show ?thesis
    by (auto intro: closed opened)
qed

theorem activeClip_meets_zones_witness:
  "validStrip 5 \<and> stripClip 2 2 (1 / 10) 5 = closedClip 5 \<and>
   stripClip 2 2 (3 / 5) 5 = openClip 5 \<and> stripClip 2 2 0 5 = closedClip 5 \<and>
   stripClip 2 2 (99 / 100) 5 = openClip 5"
  using activeClip_meets_zones [of 5 "1 / 10" 2] activeClip_meets_zones [of 5 "3 / 5" 2]
    activeClip_meets_zones [of 5 "99 / 100" 2]
  by (simp add: validStrip_def slider_defs)

text \<open>
  \<^bold>\<open>C28.\<close> The schedule of the wipe. The local progress of strip \<open>j\<close> is
  \<open>clamp (2 * (p - j/50)) 0 1\<close>: it is \<open>0\<close> exactly up to sub-progress \<open>j/50\<close>, the
  delay of the strip, and \<open>1\<close> exactly from half a transition later, \<open>j/50 + 1/2\<close>.
  It lies between \<open>0\<close> and \<open>1\<close>, grows with the sub-progress, and a strip with a
  smaller index is always at least as far open as one with a larger index, by at
  most \<open>1/25\<close> per index. The visible height of a strip is \<open>4.1\<close> percent times
  its local progress.
\<close>

theorem adjustedProgress_staggered:
  assumes "p \<le> q" "j \<le> k"
  shows "0 \<le> adjustedProgress k p \<and> adjustedProgress k p \<le> adjustedProgress j q \<and>
    adjustedProgress j q \<le> 1 \<and>
    stripLowerBound j - currentstripUpperBound j q = (41 / 10) * adjustedProgress j q \<and>
    (adjustedProgress j p = 0 \<longleftrightarrow> p \<le> of_int j / 50) \<and>
    (adjustedProgress j p = 1 \<longleftrightarrow> of_int j / 50 + 1 / 2 \<le> p) \<and>
    adjustedProgress j p = clamp 0 1 (2 * (p - of_int j / 50)) \<and>
    adjustedProgress j p - adjustedProgress k p \<le> of_int (k - j) / 25"
proof -
  from adjustedProgress_stagger [OF assms(2), of p] adjustedProgress_mono [OF assms(1), of j]
  have order: "adjustedProgress k p \<le> adjustedProgress j q"
    by simp
  have height: "stripLowerBound j - currentstripUpperBound j q = (41 / 10) * adjustedProgress j q"
    by (simp add: currentstripUpperBound_eq stripLowerBound_eq)
  have closed: "adjustedProgress j p = clamp 0 1 (2 * (p - of_int j / 50))"
    by (simp add: adjustedProgress_clamp mult.commute)
  from order height closed adjustedProgress_bounds(1) [of k p] adjustedProgress_bounds(2) [of j q]
    adjustedProgress_eq_0_iff [of j p] adjustedProgress_eq_1_iff [of j p]
    adjustedProgress_lag [OF assms(2), of p]
  show ?thesis by blast
qed

theorem adjustedProgress_staggered_witness:
  "(3 / 10 :: real) \<le> 2 / 5 \<and> (5 :: int) \<le> 10 \<and>
   adjustedProgress 10 (3 / 10) = 1 / 5 \<and> adjustedProgress 5 (2 / 5) = 3 / 5 \<and>
   stripLowerBound 5 - currentstripUpperBound 5 (2 / 5) = 246 / 100 \<and>
   adjustedProgress 5 (3 / 10) = 2 / 5 \<and>
   adjustedProgress 5 (3 / 10) - adjustedProgress 10 (3 / 10) \<le> real_of_int (10 - 5) / 25"
  using adjustedProgress_staggered [of "3 / 10" "2 / 5" 5 10]
  by (simp add: adjustedProgress_def stripDelay_eq)

end
