(* ===== verification/Image_Scale.thy ===== *)
theory Image_Scale
  imports Slider_Config
begin

text \<open>
  The scale rule of \<^verbatim>\<open>src/script.js\<close> (lines 122--129): \<open>getScaleForImage\<close>
  gives the zoom of an image from its index, the index of the current base image and
  the sub-progress of the running transition. An image starts at 1.25 and shrinks
  linearly to 1 over the two transitions in which it is the incoming and then the
  base image. \<open>scaleAt\<close> is the call pattern of the update handler, which splits
  one image progress into index and sub-progress first; \<open>scaleSpec\<close> is the same
  rule written as one clamped linear function of the image progress.
\<close>

section \<open>The scale rule\<close>

definition getScaleForImage :: "int \<Rightarrow> int \<Rightarrow> real \<Rightarrow> real" where
  "getScaleForImage imageIndex currentImageIndex progress =
     (if imageIndex > currentImageIndex then 1.25
      else if imageIndex < currentImageIndex - 1 then 1
      else
        (let totalProgress = (if imageIndex = currentImageIndex then progress else 1 + progress)
         in 1.25 - (0.25 * totalProgress) / 2))"

definition scaleAt :: "int \<Rightarrow> real \<Rightarrow> real" where
  "scaleAt imageIndex imageProgress =
     (let currentImageIndex = \<lfloor>imageProgress\<rfloor>;
          imageSpecificProgress = imageProgress - of_int currentImageIndex
      in getScaleForImage imageIndex currentImageIndex imageSpecificProgress)"

section \<open>Contract\<close>

definition scaleSpec :: "int \<Rightarrow> real \<Rightarrow> real" where
  "scaleSpec imageIndex imageProgress =
     5 / 4 - clamp 0 2 (imageProgress - of_int imageIndex) / 8"

section \<open>The four zones\<close>

lemma getScaleForImage_ahead:
  "c < k \<Longrightarrow> getScaleForImage k c p = 5 / 4"
  by (simp add: getScaleForImage_def)

lemma getScaleForImage_settled:
  "k < c - 1 \<Longrightarrow> getScaleForImage k c p = 1"
  by (simp add: getScaleForImage_def)

lemma getScaleForImage_current:
  "k = c \<Longrightarrow> getScaleForImage k c p = 5 / 4 - p / 8"
  by (simp add: getScaleForImage_def)

lemma getScaleForImage_previous:
  "k = c - 1 \<Longrightarrow> getScaleForImage k c p = 9 / 8 - p / 8"
  by (simp add: getScaleForImage_def field_simps)

lemmas getScaleForImage_zones =
  getScaleForImage_ahead getScaleForImage_settled
  getScaleForImage_current getScaleForImage_previous

lemma zone_cases [case_names ahead settled current previous]:
  fixes k c :: int
  assumes "c < k \<Longrightarrow> P" "k < c - 1 \<Longrightarrow> P" "k = c \<Longrightarrow> P" "k = c - 1 \<Longrightarrow> P"
  shows P
  using assms by linarith

section \<open>Bounds and monotonicity of the rule\<close>

lemma getScaleForImage_lower:
  assumes "p \<le> 1"
  shows "1 \<le> getScaleForImage k c p"
proof (cases rule: zone_cases [of c k])
  case ahead
  from assms show ?thesis
    unfolding getScaleForImage_ahead [OF ahead] by simp
next
  case settled
  from assms show ?thesis
    unfolding getScaleForImage_settled [OF settled] by simp
next
  case current
  from assms show ?thesis
    unfolding getScaleForImage_current [OF current] by simp
next
  case previous
  from assms show ?thesis
    unfolding getScaleForImage_previous [OF previous] by simp
qed

lemma getScaleForImage_upper:
  assumes "0 \<le> p"
  shows "getScaleForImage k c p \<le> 5 / 4"
proof (cases rule: zone_cases [of c k])
  case ahead
  from assms show ?thesis
    unfolding getScaleForImage_ahead [OF ahead] by simp
next
  case settled
  from assms show ?thesis
    unfolding getScaleForImage_settled [OF settled] by simp
next
  case current
  from assms show ?thesis
    unfolding getScaleForImage_current [OF current] by simp
next
  case previous
  from assms show ?thesis
    unfolding getScaleForImage_previous [OF previous] by simp
qed

lemma getScaleForImage_antimono:
  assumes "p \<le> q"
  shows "getScaleForImage k c q \<le> getScaleForImage k c p"
proof (cases rule: zone_cases [of c k])
  case ahead
  from assms show ?thesis
    unfolding getScaleForImage_ahead [OF ahead] by simp
next
  case settled
  from assms show ?thesis
    unfolding getScaleForImage_settled [OF settled] by simp
next
  case current
  from assms show ?thesis
    unfolding getScaleForImage_current [OF current] by simp
next
  case previous
  from assms show ?thesis
    unfolding getScaleForImage_previous [OF previous] by simp
qed

section \<open>The rule as a function of the image progress\<close>

lemma scaleAt_scaleSpec_aux:
  assumes "c = \<lfloor>x\<rfloor>"
  shows "getScaleForImage k c (x - of_int c) = 5 / 4 - clamp 0 2 (x - of_int k) / 8"
proof (cases rule: zone_cases [of c k])
  case ahead
  then have "real_of_int c + 1 \<le> of_int k" by linarith
  with assms have "x - of_int k \<le> 0" by linarith
  then have "clamp 0 2 (x - of_int k) = 0" by (rule clamp_below)
  then show ?thesis
    unfolding getScaleForImage_ahead [OF ahead] by simp
next
  case settled
  then have "real_of_int k + 2 \<le> of_int c" by linarith
  with assms have "2 \<le> x - of_int k" by linarith
  then have "clamp 0 2 (x - of_int k) = 2" by (intro clamp_above) simp_all
  then show ?thesis
    unfolding getScaleForImage_settled [OF settled] by simp
next
  case current
  with assms have "0 \<le> x - of_int k" "x - of_int k \<le> 2" by linarith+
  then have "clamp 0 2 (x - of_int k) = x - of_int c"
    using current by (simp add: clamp_inside)
  then show ?thesis
    unfolding getScaleForImage_current [OF current] by simp
next
  case previous
  then have "real_of_int c = of_int k + 1" by simp
  with assms have "0 \<le> x - of_int k" "x - of_int k \<le> 2" "x - of_int k = 1 + (x - of_int c)"
    by linarith+
  then have "clamp 0 2 (x - of_int k) = 1 + (x - of_int c)"
    by (simp add: clamp_inside)
  then show ?thesis
    unfolding getScaleForImage_previous [OF previous] by (simp add: field_simps)
qed

lemma scaleAt_eq_scaleSpec: "scaleAt k x = scaleSpec k x"
  unfolding scaleAt_def scaleSpec_def Let_def
  by (rule scaleAt_scaleSpec_aux) (rule refl)

lemma scaleSpec_antimono: "x \<le> y \<Longrightarrow> scaleSpec k y \<le> scaleSpec k x"
  unfolding scaleSpec_def using clamp_mono [of "x - of_int k" "y - of_int k" 0 2]
  by simp

lemma scaleSpec_lipschitz: "x \<le> y \<Longrightarrow> scaleSpec k x - scaleSpec k y \<le> (y - x) / 8"
  unfolding scaleSpec_def using clamp_lipschitz [of "x - of_int k" "y - of_int k" 0 2]
  by simp

section \<open>Properties of the scale rule\<close>

text \<open>
  \<^bold>\<open>C8.\<close> Seen as a function of the image progress, the scale of an image is the
  clamped linear de-zoom \<open>1.25 - 0.125 * clamp(progress - k, 0, 2)\<close>: it starts at
  \<open>1.25\<close>, never grows while the image progress grows, loses at most an eighth of
  the progress made (so it has no jump where the current image index changes), and
  stays between \<open>1\<close> and \<open>1.25\<close>.
\<close>

theorem scaleAt_refines_scaleSpec:
  assumes "x \<le> y"
  shows "scaleAt k x = 5 / 4 - clamp 0 2 (x - of_int k) / 8 \<and>
    scaleAt k y \<le> scaleAt k x \<and> scaleAt k x - scaleAt k y \<le> (y - x) / 8 \<and>
    1 \<le> scaleAt k y \<and> scaleAt k x \<le> 5 / 4"
proof -
  have "1 \<le> scaleSpec k y" "scaleSpec k x \<le> 5 / 4"
    using clamp_upper [of 0 2 "y - of_int k"] clamp_lower [of 0 2 "x - of_int k"]
    by (simp_all add: scaleSpec_def)
  with scaleSpec_antimono [OF assms, of k] scaleSpec_lipschitz [OF assms, of k] show ?thesis
    by (simp add: scaleAt_eq_scaleSpec) (simp add: scaleSpec_def)
qed

theorem scaleAt_refines_scaleSpec_witness:
  "(3 / 2 :: real) \<le> 5 / 2 \<and> scaleAt 1 (3 / 2) = 19 / 16 \<and> scaleAt 1 (5 / 2) = 17 / 16 \<and>
   (19 / 16 - 17 / 16 :: real) \<le> (5 / 2 - 3 / 2) / 8"
  using scaleAt_refines_scaleSpec [of "3 / 2" "5 / 2" 1]
  by (simp add: scaleAt_eq_scaleSpec scaleSpec_def clamp_def)

text \<open>
  \<^bold>\<open>C29.\<close> For a sub-progress between \<open>0\<close> and \<open>1\<close> the scale rule returns a value
  between \<open>1\<close> and \<open>1.25\<close> for every pair of indices, and a larger sub-progress
  never gives a larger scale.
\<close>

theorem getScaleForImage_range:
  assumes "0 \<le> p" "p \<le> q" "q \<le> 1"
  shows "1 \<le> getScaleForImage k c q \<and> getScaleForImage k c q \<le> getScaleForImage k c p \<and>
    getScaleForImage k c p \<le> 5 / 4"
  using assms getScaleForImage_lower [of q k c] getScaleForImage_upper [of p k c]
    getScaleForImage_antimono [of p q k c]
  by simp

theorem getScaleForImage_range_witness:
  "(0 :: real) \<le> 1 / 4 \<and> (1 / 4 :: real) \<le> 1 / 2 \<and> (1 / 2 :: real) \<le> 1 \<and>
   getScaleForImage 2 3 (1 / 2) = 17 / 16 \<and> getScaleForImage 2 3 (1 / 4) = 35 / 32"
  using getScaleForImage_range [of "1 / 4" "1 / 2" 2 3]
  by (simp add: getScaleForImage_previous)

text \<open>
  \<^bold>\<open>C30.\<close> The values of the scale rule at the ends of a transition: the current
  image has scale \<open>1.25\<close> at sub-progress \<open>0\<close> and \<open>1.125\<close> at sub-progress \<open>1\<close>,
  the previous image reaches exactly \<open>1\<close> at sub-progress \<open>1\<close>, and for every image
  the scale at the end of one transition is the scale at the start of the next.
\<close>

theorem getScaleForImage_transition_ends:
  "getScaleForImage c c 0 = 1.25 \<and> getScaleForImage c c 1 = 1.125 \<and>
   getScaleForImage (c - 1) c 1 = 1 \<and>
   getScaleForImage k c 1 = getScaleForImage k (c + 1) 0"
proof -
  have "getScaleForImage k c 1 = getScaleForImage k (c + 1) 0"
  proof (cases rule: zone_cases [of c k])
    case ahead
    then show ?thesis
      by (cases "k = c + 1") (simp_all add: getScaleForImage_ahead getScaleForImage_current)
  next
    case settled
    then show ?thesis by (simp add: getScaleForImage_settled)
  next
    case current
    then show ?thesis
      by (simp add: getScaleForImage_current getScaleForImage_previous)
  next
    case previous
    then show ?thesis
      by (simp add: getScaleForImage_previous getScaleForImage_settled)
  qed
  then show ?thesis
    by (simp add: getScaleForImage_current getScaleForImage_previous)
qed

end
