(* ===== verification/Strip_Renderer.thy ===== *)
theory Strip_Renderer
  imports Strip_Geometry Image_Scale
begin

text \<open>
  The part of the document the script owns, and the two pieces of code that write
  it: the construction loop of \<^verbatim>\<open>src/script.js\<close> lines 27--59 (\<open>buildContainer\<close>,
  \<open>buildDom\<close>) and the rendering loop of the update handler, lines 221--287
  (\<open>renderContainer\<close>, \<open>renderSlide\<close>, \<open>renderSlides\<close>, \<open>renderDom\<close>).

  A strip element is its clip path together with the image inside it; a container
  element is its opacity and its list of strips; the document is the transform of
  the first slide's image and the containers by the number in their id
  (\<^verbatim>\<open>img-container-n\<close>), a partial map because \<^verbatim>\<open>document.getElementById\<close> may
  find nothing, in which case the handler skips the slide. CSS strings are kept as
  the numbers they print: an opacity, a scale factor, the corner points of a polygon.
\<close>

section \<open>Elements\<close>

record stripElement =
  clipPath :: polygon
  imgSrc :: string
  imgAlt :: string
  imgTransform :: real

record containerElement =
  opacity :: real
  strips :: "stripElement list"

record dom =
  firstSlideImgTransform :: real
  containers :: "int \<rightharpoonup> containerElement"

section \<open>Construction\<close>

definition buildStrip :: "slide list \<Rightarrow> nat \<Rightarrow> nat \<Rightarrow> stripElement" where
  "buildStrip slides i j =
     \<lparr>clipPath = openClip (int j),
      imgSrc = image (slides ! i),
      imgAlt = title (slides ! i),
      imgTransform = 1.25\<rparr>"

definition buildContainer :: "slide list \<Rightarrow> nat \<Rightarrow> containerElement" where
  "buildContainer slides i =
     \<lparr>opacity = 0, strips = map (buildStrip slides i) [0..<nat stripsCount]\<rparr>"

definition buildDom :: "slide list \<Rightarrow> dom" where
  "buildDom slides =
     \<lparr>firstSlideImgTransform = 1.25,
      containers = fold (\<lambda>i cs. cs(int i + 1 \<mapsto> buildContainer slides i))
                     [1..<length slides] Map.empty\<rparr>"

section \<open>Rendering\<close>

definition renderStrips :: "int \<Rightarrow> int \<Rightarrow> real \<Rightarrow> stripElement list \<Rightarrow> stripElement list" where
  "renderStrips transitionIndex currentImageIndex imageSpecificProgress ss =
     map (\<lambda>(stripIndex, strip).
            strip\<lparr>clipPath :=
              stripClip transitionIndex currentImageIndex imageSpecificProgress
                (int stripIndex)\<rparr>)
       (enumerate 0 ss)"

definition renderContainer :: "int \<Rightarrow> real \<Rightarrow> int \<Rightarrow> containerElement \<Rightarrow> containerElement" where
  "renderContainer currentImageIndex imageSpecificProgress i imgContainer =
     (let imgIndex = i + 1;
          transitionIndex = imgIndex - 2;
          imgScale = getScaleForImage transitionIndex currentImageIndex imageSpecificProgress
      in imgContainer
           \<lparr>opacity := 1,
            strips :=
              map (\<lambda>strip. strip\<lparr>imgTransform := imgScale\<rparr>)
                (renderStrips transitionIndex currentImageIndex imageSpecificProgress
                   (strips imgContainer))\<rparr>)"

definition renderSlide :: "int \<Rightarrow> real \<Rightarrow> nat \<Rightarrow> dom \<Rightarrow> dom" where
  "renderSlide currentImageIndex imageSpecificProgress i d =
     (case containers d (int i + 1) of
        None \<Rightarrow> d
      | Some imgContainer \<Rightarrow>
          d\<lparr>containers := (containers d)(int i + 1 \<mapsto>
               renderContainer currentImageIndex imageSpecificProgress (int i) imgContainer)\<rparr>)"

definition renderSlides :: "slide list \<Rightarrow> int \<Rightarrow> real \<Rightarrow> dom \<Rightarrow> dom" where
  "renderSlides slides currentImageIndex imageSpecificProgress d =
     fold (renderSlide currentImageIndex imageSpecificProgress) [1..<length slides] d"

definition renderDom :: "slide list \<Rightarrow> real \<Rightarrow> dom \<Rightarrow> dom" where
  "renderDom slides imageProgress d =
     (let currentImageIndex = \<lfloor>imageProgress\<rfloor>;
          imageSpecificProgress = imageProgress - of_int currentImageIndex;
          firstSlideImgScale = getScaleForImage 0 currentImageIndex imageSpecificProgress
      in renderSlides slides currentImageIndex imageSpecificProgress
           (d\<lparr>firstSlideImgTransform := firstSlideImgScale\<rparr>))"

section \<open>Contract\<close>

text \<open>
  What a tick must leave in a container that exists: the container visible, strip
  \<open>j\<close> clipped as the contract of the geometry says for the transition that reveals
  the slide, and every image at the scale of that transition. Everything else about
  the elements (their number, sources and alternative texts) is left alone.
\<close>

definition paintedStrip :: "int \<Rightarrow> real \<Rightarrow> nat \<Rightarrow> stripElement \<Rightarrow> stripElement" where
  "paintedStrip transitionIndex imageProgress j strip =
     strip\<lparr>clipPath := clipAt transitionIndex imageProgress (int j),
           imgTransform := scaleAt transitionIndex imageProgress\<rparr>"

definition paintedContainer :: "int \<Rightarrow> real \<Rightarrow> containerElement \<Rightarrow> containerElement" where
  "paintedContainer transitionIndex imageProgress c =
     \<lparr>opacity = 1,
      strips = map (\<lambda>(j, strip). paintedStrip transitionIndex imageProgress j strip)
                 (enumerate 0 (strips c))\<rparr>"

definition paintedDom :: "slide list \<Rightarrow> real \<Rightarrow> dom \<Rightarrow> dom" where
  "paintedDom slides imageProgress d =
     \<lparr>firstSlideImgTransform = scaleAt 0 imageProgress,
      containers = (\<lambda>n.
        if 2 \<le> n \<and> n \<le> int (length slides)
        then map_option (paintedContainer (n - 2) imageProgress) (containers d n)
        else containers d n)\<rparr>"

definition wellBuilt :: "slide list \<Rightarrow> dom \<Rightarrow> bool" where
  "wellBuilt slides d \<longleftrightarrow>
     list_all
       (\<lambda>i. case containers d (int i + 1) of
              None \<Rightarrow> False
            | Some c \<Rightarrow> length (strips c) = nat stripsCount)
       [1..<length slides]"

section \<open>Strips of one container\<close>

lemma length_renderStrips [simp]: "length (renderStrips t c p ss) = length ss"
  by (simp add: renderStrips_def)

lemma renderStrips_nth:
  "j < length ss \<Longrightarrow>
   renderStrips t c p ss ! j = (ss ! j)\<lparr>clipPath := stripClip t c p (int j)\<rparr>"
  by (simp add: renderStrips_def nth_enumerate_eq)

lemma renderContainer_sel [simp]:
  "opacity (renderContainer c p i cont) = 1"
  "length (strips (renderContainer c p i cont)) = length (strips cont)"
  by (simp_all add: renderContainer_def Let_def)

lemma renderContainer_nth:
  "j < length (strips cont) \<Longrightarrow>
   strips (renderContainer c p i cont) ! j =
     (strips cont ! j)\<lparr>clipPath := stripClip (i - 1) c p (int j),
                        imgTransform := getScaleForImage (i - 1) c p\<rparr>"
  by (simp add: renderContainer_def Let_def renderStrips_nth)

lemma renderContainer_painted:
  assumes "c = \<lfloor>x\<rfloor>"
  shows "renderContainer c (x - of_int c) i cont = paintedContainer (i - 1) x cont"
proof -
  have "strips (renderContainer c (x - of_int c) i cont)
      = strips (paintedContainer (i - 1) x cont)"
  proof (rule nth_equalityI)
    show "length (strips (renderContainer c (x - of_int c) i cont))
        = length (strips (paintedContainer (i - 1) x cont))"
      by (simp add: paintedContainer_def)
  next
    fix j
    assume "j < length (strips (renderContainer c (x - of_int c) i cont))"
    then have j: "j < length (strips cont)" by simp
    then show "strips (renderContainer c (x - of_int c) i cont) ! j
        = strips (paintedContainer (i - 1) x cont) ! j"
      using assms
      by (simp add: renderContainer_nth paintedContainer_def paintedStrip_def
          nth_enumerate_eq clipAt_def scaleAt_def Let_def)
  qed
  then show ?thesis
    by (simp add: paintedContainer_def)
qed

section \<open>The loop over the slides\<close>

lemma renderSlide_first [simp]:
  "firstSlideImgTransform (renderSlide c p i d) = firstSlideImgTransform d"
  by (simp add: renderSlide_def split: option.split)

lemma renderSlide_containers:
  "containers (renderSlide c p i d) n =
     (if n = int i + 1 then map_option (renderContainer c p (int i)) (containers d n)
      else containers d n)"
  by (simp add: renderSlide_def split: option.split)

lemma fold_renderSlide_first [simp]:
  "firstSlideImgTransform (fold (renderSlide c p) ks d) = firstSlideImgTransform d"
  by (induction ks arbitrary: d) simp_all

lemma fold_renderSlide_containers:
  "distinct ks \<Longrightarrow>
   containers (fold (renderSlide c p) ks d) n =
     (if n - 1 \<in> int ` set ks
      then map_option (renderContainer c p (n - 1)) (containers d n)
      else containers d n)"
proof (induction ks arbitrary: d)
  case Nil
  then show ?case by simp
next
  case (Cons k ks)
  then show ?case
    by (auto simp: renderSlide_containers)
qed

lemma slide_ids [simp]: "n - 1 \<in> int ` {Suc 0..<N} \<longleftrightarrow> 2 \<le> n \<and> n \<le> int N"
proof
  assume "n - 1 \<in> int ` {Suc 0..<N}"
  then show "2 \<le> n \<and> n \<le> int N" by auto
next
  assume n: "2 \<le> n \<and> n \<le> int N"
  then have "nat (n - 1) \<in> {Suc 0..<N}" by auto
  moreover from n have "n - 1 = int (nat (n - 1))" by simp
  ultimately show "n - 1 \<in> int ` {Suc 0..<N}" by (rule rev_image_eqI)
qed

lemma renderSlides_containers:
  "containers (renderSlides slides c p d) n =
     (if 2 \<le> n \<and> n \<le> int (length slides)
      then map_option (renderContainer c p (n - 1)) (containers d n)
      else containers d n)"
  by (simp add: renderSlides_def fold_renderSlide_containers slide_ids)

lemma renderDom_paintedDom: "renderDom slides x d = paintedDom slides x d"
proof -
  have "containers (renderDom slides x d) = containers (paintedDom slides x d)"
    by (rule ext)
      (simp add: renderDom_def Let_def renderSlides_containers paintedDom_def
        renderContainer_painted option.map_comp comp_def cong: option.map_cong)
  moreover have "firstSlideImgTransform (renderDom slides x d)
      = firstSlideImgTransform (paintedDom slides x d)"
    by (simp add: renderDom_def Let_def renderSlides_def paintedDom_def scaleAt_def)
  ultimately show ?thesis
    by simp
qed

section \<open>The document the script builds\<close>

lemma fold_build_containers:
  "distinct ks \<Longrightarrow>
   fold (\<lambda>i cs. cs(int i + 1 \<mapsto> buildContainer slides i)) ks cs n =
     (if n - 1 \<in> int ` set ks then Some (buildContainer slides (nat (n - 1))) else cs n)"
proof (induction ks arbitrary: cs)
  case Nil
  then show ?case by simp
next
  case (Cons k ks)
  then show ?case by auto
qed

lemma buildDom_containers:
  "containers (buildDom slides) n =
     (if 2 \<le> n \<and> n \<le> int (length slides) then Some (buildContainer slides (nat (n - 1)))
      else None)"
  by (simp add: buildDom_def fold_build_containers slide_ids)

lemma wellBuilt_iff:
  "wellBuilt slides d \<longleftrightarrow>
     (\<forall>n. 2 \<le> n \<and> n \<le> int (length slides) \<longrightarrow>
        (\<exists>c. containers d n = Some c \<and> length (strips c) = nat stripsCount))"
  (is "_ \<longleftrightarrow> (\<forall>n. ?R n \<longrightarrow> ?P n)")
proof -
  have wb: "wellBuilt slides d \<longleftrightarrow> (\<forall>i\<in>{Suc 0..<length slides}. ?P (int i + 1))"
    by (auto simp: wellBuilt_def list_all_iff split: option.splits)
  show ?thesis
  proof (intro iffI allI impI)
    fix n
    assume "wellBuilt slides d" and n: "?R n"
    then have "?P (int (nat (n - 1)) + 1)"
      unfolding wb by (intro bspec [where P = "\<lambda>i. ?P (int i + 1)"]) auto
    with n show "?P n" by simp
  next
    assume "\<forall>n. ?R n \<longrightarrow> ?P n"
    then show "wellBuilt slides d"
      unfolding wb by auto
  qed
qed

lemma wellBuilt_buildDom: "wellBuilt slides (buildDom slides)"
  by (simp add: wellBuilt_iff buildDom_containers buildContainer_def)

lemma paintedContainer_sel [simp]:
  "opacity (paintedContainer t x c) = 1"
  "length (strips (paintedContainer t x c)) = length (strips c)"
  by (simp_all add: paintedContainer_def)

lemma paintedContainer_nth:
  "j < length (strips c) \<Longrightarrow>
   strips (paintedContainer t x c) ! j = paintedStrip t x j (strips c ! j)"
  by (simp add: paintedContainer_def nth_enumerate_eq)

lemma paintedContainer_overwrites:
  "paintedContainer t x (paintedContainer t' y c) = paintedContainer t x c"
proof -
  have "strips (paintedContainer t x (paintedContainer t' y c)) = strips (paintedContainer t x c)"
    by (rule nth_equalityI) (simp_all add: paintedContainer_nth paintedStrip_def)
  then show ?thesis
    by (simp add: paintedContainer_def)
qed

lemma wellBuilt_paintedDom: "wellBuilt slides d \<Longrightarrow> wellBuilt slides (paintedDom slides x d)"
  by (auto simp: wellBuilt_iff paintedDom_def)

lemma paintedDom_overwrites:
  "paintedDom slides x (paintedDom slides y d) = paintedDom slides x d"
  by (auto simp: paintedDom_def paintedContainer_overwrites option.map_comp comp_def
      intro!: ext cong: option.map_cong)

lemma paintedDom_strip:
  assumes "2 \<le> n" "n \<le> int (length slides)" "containers d n = Some c" "j < length (strips c)"
  shows "\<exists>c'. containers (paintedDom slides x d) n = Some c' \<and> opacity c' = 1 \<and>
    length (strips c') = length (strips c) \<and>
    strips c' ! j = paintedStrip (n - 2) x j (strips c ! j)"
  using assms by (simp add: paintedDom_def paintedContainer_nth)

lemma wellBuilt_container:
  assumes "wellBuilt slides d" "2 \<le> n" "n \<le> int (length slides)"
  obtains c where "containers d n = Some c" "length (strips c) = nat stripsCount"
  using assms unfolding wellBuilt_iff by blast

lemma buildContainer_sel [simp]:
  "opacity (buildContainer slides i) = 0"
  "length (strips (buildContainer slides i)) = nat stripsCount"
  by (simp_all add: buildContainer_def)

lemma buildContainer_nth:
  "j < nat stripsCount \<Longrightarrow> strips (buildContainer slides i) ! j = buildStrip slides i j"
  by (simp add: buildContainer_def)

section \<open>Properties of the renderer\<close>

text \<open>
  \<^bold>\<open>C6.\<close> What one tick writes. For every slide after the first whose container
  exists, the tick makes the container visible, keeps the number of its strips, and
  leaves in strip \<open>j\<close> the clip path and the scale that the image progress of this
  tick determines for the transition revealing that slide; source and alternative
  text of the image are untouched. The first slide's image gets the scale of
  transition \<open>0\<close>.
\<close>

theorem renderDom_paints:
  assumes "2 \<le> n" "n \<le> int (length slides)" "containers d n = Some c"
    and "j < length (strips c)"
  shows "\<exists>c'. containers (renderDom slides x d) n = Some c' \<and> opacity c' = 1 \<and>
    length (strips c') = length (strips c) \<and>
    strips c' ! j = (strips c ! j)\<lparr>clipPath := clipAt (n - 2) x (int j),
                                    imgTransform := scaleAt (n - 2) x\<rparr> \<and>
    firstSlideImgTransform (renderDom slides x d) = scaleAt 0 x"
  using assms
  by (simp add: renderDom_paintedDom paintedDom_def paintedContainer_nth paintedStrip_def)

theorem renderDom_paints_witness:
  "\<exists>c'. containers (renderDom (blankSlides 3) (1 / 2) (buildDom (blankSlides 3))) 2 = Some c' \<and>
     opacity c' = 1 \<and> length (strips c') = 25 \<and>
     clipPath (strips c' ! 3) = clipAt 0 (1 / 2) 3 \<and>
     imgTransform (strips c' ! 3) = scaleAt 0 (1 / 2)"
  using renderDom_paints [of 2 "blankSlides 3" "buildDom (blankSlides 3)"
      "buildContainer (blankSlides 3) 1" 3 "1 / 2"]
  by (auto simp: buildDom_containers slider_defs)

text \<open>
  \<^bold>\<open>C24.\<close> A tick has no memory: what the document holds after a tick does not
  depend on what earlier ticks wrote. Rendering image progress \<open>x\<close> after any other
  image progress \<open>y\<close> gives the same document as rendering \<open>x\<close> directly, and
  rendering the same progress twice changes nothing.
\<close>

theorem renderDom_stateless:
  "renderDom slides x (renderDom slides y d) = renderDom slides x d \<and>
   renderDom slides x (renderDom slides x d) = renderDom slides x d"
  by (simp add: renderDom_paintedDom paintedDom_overwrites)

text \<open>
  \<^bold>\<open>C32.\<close> A tick skips what it cannot find and touches nothing else: a container
  that does not exist is not created, and an element whose id is not the id of a
  slide after the first is left exactly as it was.
\<close>

theorem renderDom_frame:
  "(containers d n = None \<longrightarrow> containers (renderDom slides x d) n = None) \<and>
   (\<not> (2 \<le> n \<and> n \<le> int (length slides)) \<longrightarrow>
      containers (renderDom slides x d) n = containers d n)"
  by (simp add: renderDom_paintedDom paintedDom_def)

theorem renderDom_frame_witness:
  "containers (buildDom (blankSlides 3)) 7 = None \<and>
   containers (renderDom (blankSlides 3) (1 / 2) (buildDom (blankSlides 3))) 7 = None \<and>
   \<not> (2 \<le> (7 :: int) \<and> (7 :: int) \<le> int (length (blankSlides 3)))"
  using renderDom_frame [of "buildDom (blankSlides 3)" 7 "blankSlides 3" "1 / 2"]
  by (simp add: buildDom_containers)

text \<open>
  \<^bold>\<open>C33.\<close> The document the script builds before the first tick: one container per
  slide after the first, under the id \<open>i + 1\<close> for the slide with index \<open>i\<close>,
  invisible, with 25 strips; strip \<open>j\<close> carries the image and title of that slide at
  scale \<open>1.25\<close>, clipped to the fully open band of strip \<open>j\<close>. No other container
  is created.
\<close>

theorem buildDom_initial:
  "firstSlideImgTransform (buildDom slides) = 1.25 \<and>
   wellBuilt slides (buildDom slides) \<and>
   containers (buildDom slides) n =
     (if 2 \<le> n \<and> n \<le> int (length slides)
      then Some \<lparr>opacity = 0,
                 strips = map (\<lambda>j. \<lparr>clipPath = openClip (int j),
                                    imgSrc = image (slides ! nat (n - 1)),
                                    imgAlt = title (slides ! nat (n - 1)),
                                    imgTransform = 1.25\<rparr>) [0..<25]\<rparr>
      else None)"
  by (simp add: buildDom_containers wellBuilt_buildDom)
    (simp add: buildDom_def buildContainer_def buildStrip_def slider_defs)

text \<open>
  \<^bold>\<open>C31.\<close> The handler scales the images of a slide by the rule for the
  transition that reveals it, not by the rule for the slide's own index: the
  images of slide \<open>k \<ge> 1\<close> get the scale of index \<open>k - 1\<close>. The images of the
  second slide therefore always have exactly the scale of the first slide's image.
\<close>

theorem renderDom_second_slide_scale:
  assumes "2 \<le> length slides" "containers d 2 = Some c" "j < length (strips c)"
  shows "\<exists>c'. containers (renderDom slides x d) 2 = Some c' \<and>
    imgTransform (strips c' ! j) = scaleAt 0 x \<and>
    imgTransform (strips c' ! j) = firstSlideImgTransform (renderDom slides x d)"
proof -
  from assms(1) have "(2 :: int) \<le> int (length slides)" by simp
  from paintedDom_strip [OF _ this assms(2,3), of x] show ?thesis
    by (auto simp: renderDom_paintedDom paintedStrip_def paintedDom_def)
qed

theorem renderDom_second_slide_scale_witness:
  "2 \<le> length sampleSlides \<and>
   (\<exists>c'. containers (renderDom sampleSlides (3 / 2) (buildDom sampleSlides)) 2 = Some c' \<and>
      imgTransform (strips c' ! 3) = 17 / 16 \<and>
      firstSlideImgTransform (renderDom sampleSlides (3 / 2) (buildDom sampleSlides)) = 17 / 16)"
  using renderDom_second_slide_scale [of sampleSlides "buildDom sampleSlides"
      "buildContainer sampleSlides 1" 3 "3 / 2"]
  by (auto simp: buildDom_containers slider_defs scaleAt_eq_scaleSpec scaleSpec_def clamp_def)

end
