(* ===== verification/Title_Machine.thy ===== *)
theory Title_Machine
  imports Slider_Config
begin

text \<open>
  The title state machine of \<^verbatim>\<open>src/script.js\<close>: the three variables
  \<^verbatim>\<open>currentTitleIndex\<close>, \<^verbatim>\<open>queuedTitleIndex\<close> and \<^verbatim>\<open>isAnimating\<close> (lines 22--25),
  \<^verbatim>\<open>animateTitleChange\<close> with its two completion callbacks (lines 131--179),
  \<^verbatim>\<open>getTitleIndexForProgress\<close> (lines 181--190) and the part of the update handler
  that requests a title (lines 212--219, \<open>syncTitle\<close>).

  The state also holds what the machine writes to the page (the text and vertical
  offset of the title element, the \<^verbatim>\<open>href\<close> of the link) and the tweens of the title
  element that are alive inside the animation library. The library is not part of
  the repository; three of its calls are modelled from its documented behaviour:
  \<^verbatim>\<open>gsap.to\<close> adds a tween, \<^verbatim>\<open>gsap.killTweensOf\<close> removes all tweens of the
  element without running their callbacks, and a tween that reaches its end
  (\<open>completeTween\<close>) leaves the animated property at its end value, disappears and
  runs its \<^verbatim>\<open>onComplete\<close>. A tween is identified with the closure it will run: the
  slide-out tween of an animation towards \<open>index\<close> in \<open>direction\<close>, or the slide-in
  tween of the same animation. Intermediate values of the offset are not modelled;
  \<open>titleY\<close> is the last value written.

  Events are the calls the machine can receive: a direct request, a request from
  the update handler, and the completion of the \<open>k\<close>-th live tween. \<open>titleStep\<close>
  executes one event, \<open>titleRun\<close> a sequence, \<open>reachable\<close> is the set of states the
  page can be in, and \<open>title_inv\<close> is the invariant that ties the three variables,
  the live tweens and the page together.
\<close>

section \<open>State\<close>

datatype direction = Down | Up

datatype tween = SlideOut int direction | SlideIn int direction

record titleState =
  currentTitleIndex :: int
  queuedTitleIndex :: "int option"
  isAnimating :: bool
  titleText :: string
  titleY :: real
  linkHref :: string
  tweens :: "tween list"

definition titleInit :: "string \<Rightarrow> string \<Rightarrow> titleState" where
  "titleInit label href =
     \<lparr>currentTitleIndex = 0, queuedTitleIndex = None, isAnimating = False,
      titleText = label, titleY = 0, linkHref = href, tweens = []\<rparr>"

section \<open>The animation library\<close>

definition gsap_killTweensOf :: "titleState \<Rightarrow> titleState" where
  [title_defs]: "gsap_killTweensOf st = st\<lparr>tweens := []\<rparr>"

definition gsap_to :: "tween \<Rightarrow> titleState \<Rightarrow> titleState" where
  [title_defs]: "gsap_to tw st = st\<lparr>tweens := tweens st @ [tw]\<rparr>"

definition gsap_set :: "real \<Rightarrow> titleState \<Rightarrow> titleState" where
  [title_defs]: "gsap_set y st = st\<lparr>titleY := y\<rparr>"

section \<open>Operations\<close>

definition outY :: "direction \<Rightarrow> real" where
  [title_defs]: "outY direction = (if direction = Down then - 120 else 120)"

definition inY :: "direction \<Rightarrow> real" where
  [title_defs]: "inY direction = (if direction = Down then 120 else - 120)"

definition animateTitleChange ::
  "slide list \<Rightarrow> int \<Rightarrow> direction \<Rightarrow> titleState \<Rightarrow> titleState" where
  "animateTitleChange slides index direction st =
     (if index = currentTitleIndex st then st
      else if index < 0 \<or> index \<ge> int (length slides) then st
      else if isAnimating st then st\<lparr>queuedTitleIndex := Some index\<rparr>
      else
        (let st1 = st\<lparr>isAnimating := True\<rparr>;
             newUrl = url (slides ! nat index);
             st2 = gsap_killTweensOf st1;
             st3 = st2\<lparr>linkHref := newUrl\<rparr>
         in gsap_to (SlideOut index direction) st3))"

definition slideOutComplete ::
  "slide list \<Rightarrow> int \<Rightarrow> direction \<Rightarrow> titleState \<Rightarrow> titleState" where
  "slideOutComplete slides index direction st =
     (let newTitle = title (slides ! nat index);
          st1 = st\<lparr>titleText := newTitle\<rparr>;
          st2 = gsap_set (inY direction) st1
      in gsap_to (SlideIn index direction) st2)"

definition slideInComplete ::
  "slide list \<Rightarrow> int \<Rightarrow> direction \<Rightarrow> titleState \<Rightarrow> titleState" where
  "slideInComplete slides index direction st =
     (let st1 = st\<lparr>currentTitleIndex := index, isAnimating := False\<rparr>
      in case queuedTitleIndex st1 of
           None \<Rightarrow> st1
         | Some nextIndex \<Rightarrow>
             if nextIndex \<noteq> currentTitleIndex st1
             then animateTitleChange slides nextIndex direction
                    (st1\<lparr>queuedTitleIndex := None\<rparr>)
             else st1)"

fun tweenEnd :: "tween \<Rightarrow> real" where
  "tweenEnd (SlideOut index direction) = outY direction"
| "tweenEnd (SlideIn index direction) = 0"

fun onComplete :: "slide list \<Rightarrow> tween \<Rightarrow> titleState \<Rightarrow> titleState" where
  "onComplete slides (SlideOut index direction) st = slideOutComplete slides index direction st"
| "onComplete slides (SlideIn index direction) st = slideInComplete slides index direction st"

definition completeTween :: "slide list \<Rightarrow> nat \<Rightarrow> titleState \<Rightarrow> titleState" where
  "completeTween slides k st =
     (if k < length (tweens st)
      then onComplete slides (tweens st ! k)
             (st\<lparr>titleY := tweenEnd (tweens st ! k),
                 tweens := take k (tweens st) @ drop (Suc k) (tweens st)\<rparr>)
      else st)"

definition getTitleIndexForProgress :: "slide list \<Rightarrow> real \<Rightarrow> int" where
  "getTitleIndexForProgress slides imageProgress =
     (let imageIndex = \<lfloor>imageProgress\<rfloor>;
          imageSpecificProgress = imageProgress - of_int imageIndex
      in if imageSpecificProgress \<ge> titleChangeThreshold
         then min (imageIndex + 1) (int (length slides) - 1)
         else imageIndex)"

definition syncTitle :: "slide list \<Rightarrow> real \<Rightarrow> direction \<Rightarrow> titleState \<Rightarrow> titleState" where
  "syncTitle slides imageProgress scrollDirection st =
     (let correctTitleIndex = getTitleIndexForProgress slides imageProgress
      in if correctTitleIndex \<noteq> currentTitleIndex st
         then
           (let st1 = st\<lparr>queuedTitleIndex := Some correctTitleIndex\<rparr>
            in if \<not> isAnimating st1
               then animateTitleChange slides correctTitleIndex scrollDirection st1
               else st1)
         else st)"

section \<open>Events and runs\<close>

datatype titleEvent = Request int direction | Sync real direction | TweenDone nat

fun titleStep :: "slide list \<Rightarrow> titleState \<Rightarrow> titleEvent \<Rightarrow> titleState" where
  "titleStep slides st (Request index direction) = animateTitleChange slides index direction st"
| "titleStep slides st (Sync imageProgress direction) =
     syncTitle slides imageProgress direction st"
| "titleStep slides st (TweenDone k) = completeTween slides k st"

fun titleRun :: "slide list \<Rightarrow> titleState \<Rightarrow> titleEvent list \<Rightarrow> titleState" where
  "titleRun slides st [] = st"
| "titleRun slides st (e # es) = titleRun slides (titleStep slides st e) es"

definition enabled :: "titleState \<Rightarrow> titleEvent \<Rightarrow> bool" where
  "enabled st e = (case e of TweenDone k \<Rightarrow> k < length (tweens st) | _ \<Rightarrow> True)"

inductive reachable :: "slide list \<Rightarrow> titleState \<Rightarrow> bool" for slides where
  init: "reachable slides (titleInit (title (slides ! 0)) (url (slides ! 0)))"
| step: "reachable slides st \<Longrightarrow> enabled st e \<Longrightarrow> reachable slides (titleStep slides st e)"

section \<open>Invariant and contract\<close>

definition validIndex :: "slide list \<Rightarrow> int \<Rightarrow> bool" where
  "validIndex slides i \<longleftrightarrow> 0 \<le> i \<and> i < int (length slides)"

definition displays :: "slide list \<Rightarrow> int \<Rightarrow> int \<Rightarrow> real \<Rightarrow> titleState \<Rightarrow> bool" where
  "displays slides textIndex linkIndex y st \<longleftrightarrow>
     titleText st = title (slides ! nat textIndex) \<and>
     linkHref st = url (slides ! nat linkIndex) \<and>
     titleY st = y"

fun phase_inv :: "slide list \<Rightarrow> titleState \<Rightarrow> tween list \<Rightarrow> bool" where
  "phase_inv slides st [] \<longleftrightarrow>
     \<not> isAnimating st \<and> displays slides (currentTitleIndex st) (currentTitleIndex st) 0 st"
| "phase_inv slides st [SlideOut i d] \<longleftrightarrow>
     isAnimating st \<and> validIndex slides i \<and> i \<noteq> currentTitleIndex st \<and>
     displays slides (currentTitleIndex st) i 0 st"
| "phase_inv slides st [SlideIn i d] \<longleftrightarrow>
     isAnimating st \<and> validIndex slides i \<and> i \<noteq> currentTitleIndex st \<and>
     displays slides i i (inY d) st"
| "phase_inv slides st (tw # tw' # tws) \<longleftrightarrow> False"

definition title_inv :: "slide list \<Rightarrow> titleState \<Rightarrow> bool" where
  "title_inv slides st \<longleftrightarrow>
     validIndex slides (currentTitleIndex st) \<and> phase_inv slides st (tweens st)"

text \<open>
  Where the machine is heading if no further request arrives: the index it will
  show once every pending animation has finished.
\<close>

definition drainsTo :: "slide list \<Rightarrow> int \<Rightarrow> titleState \<Rightarrow> int" where
  "drainsTo slides i st =
     (case queuedTitleIndex st of
        None \<Rightarrow> i
      | Some q \<Rightarrow> if q \<noteq> i \<and> validIndex slides q then q else i)"

definition settlesAt :: "slide list \<Rightarrow> titleState \<Rightarrow> int" where
  "settlesAt slides st =
     (case tweens st of
        [] \<Rightarrow> currentTitleIndex st
      | SlideOut i d # _ \<Rightarrow> drainsTo slides i st
      | SlideIn i d # _ \<Rightarrow> drainsTo slides i st)"

definition settle :: "slide list \<Rightarrow> titleState \<Rightarrow> titleState" where
  "settle slides st = titleRun slides st (replicate 4 (TweenDone 0))"

text \<open>
  The number of tween completions the machine still needs before it is idle: two
  for each animation, one if the running animation is already sliding in, and one
  more animation if the queue holds an index that will be drained.
\<close>

definition pendingSteps :: "slide list \<Rightarrow> titleState \<Rightarrow> nat" where
  "pendingSteps slides st =
     (case tweens st of
        [] \<Rightarrow> 0
      | SlideOut i d # _ \<Rightarrow> (if drainsTo slides i st = i then 2 else 4)
      | SlideIn i d # _ \<Rightarrow> (if drainsTo slides i st = i then 1 else 3))"

section \<open>The invariant, phase by phase\<close>

lemma title_inv_cases [consumes 1, case_names idle sliding_out sliding_in]:
  assumes "title_inv slides st"
  obtains
    (idle) "tweens st = []" "\<not> isAnimating st" "validIndex slides (currentTitleIndex st)"
      "displays slides (currentTitleIndex st) (currentTitleIndex st) 0 st"
  | (sliding_out) i d where "tweens st = [SlideOut i d]" "isAnimating st"
      "validIndex slides (currentTitleIndex st)" "validIndex slides i"
      "i \<noteq> currentTitleIndex st" "displays slides (currentTitleIndex st) i 0 st"
  | (sliding_in) i d where "tweens st = [SlideIn i d]" "isAnimating st"
      "validIndex slides (currentTitleIndex st)" "validIndex slides i"
      "i \<noteq> currentTitleIndex st" "displays slides i i (inY d) st"
  using assms unfolding title_inv_def
  by (cases "(slides, st, tweens st)" rule: phase_inv.cases) auto

lemma animateTitleChange_same [simp]:
  "animateTitleChange slides (currentTitleIndex st) d st = st"
  by (simp add: animateTitleChange_def)

lemma animateTitleChange_invalid:
  "\<not> validIndex slides i \<Longrightarrow> animateTitleChange slides i d st = st"
  by (auto simp add: animateTitleChange_def validIndex_def)

lemma animateTitleChange_busy:
  "validIndex slides i \<Longrightarrow> i \<noteq> currentTitleIndex st \<Longrightarrow> isAnimating st \<Longrightarrow>
   animateTitleChange slides i d st = st\<lparr>queuedTitleIndex := Some i\<rparr>"
  by (auto simp add: animateTitleChange_def validIndex_def)

lemma animateTitleChange_start:
  "validIndex slides i \<Longrightarrow> i \<noteq> currentTitleIndex st \<Longrightarrow> \<not> isAnimating st \<Longrightarrow>
   animateTitleChange slides i d st =
     st\<lparr>isAnimating := True, tweens := [SlideOut i d], linkHref := url (slides ! nat i)\<rparr>"
  by (auto simp add: animateTitleChange_def validIndex_def title_defs)

lemma animateTitleChange_inv:
  assumes "title_inv slides st"
  shows "title_inv slides (animateTitleChange slides i d st)"
proof (cases "validIndex slides i \<and> i \<noteq> currentTitleIndex st")
  case False
  with assms show ?thesis by (auto simp add: animateTitleChange_invalid)
next
  case True
  from assms show ?thesis
  proof (cases rule: title_inv_cases)
    case idle
    with True show ?thesis
      by (simp add: animateTitleChange_start title_inv_def displays_def)
  next
    case (sliding_out j e)
    with True show ?thesis
      by (simp add: animateTitleChange_busy title_inv_def displays_def)
  next
    case (sliding_in j e)
    with True show ?thesis
      by (simp add: animateTitleChange_busy title_inv_def displays_def)
  qed
qed

lemma syncTitle_unfold:
  "syncTitle slides x d st =
     (let c = getTitleIndexForProgress slides x in
      if c = currentTitleIndex st then st
      else if isAnimating st then st\<lparr>queuedTitleIndex := Some c\<rparr>
      else animateTitleChange slides c d (st\<lparr>queuedTitleIndex := Some c\<rparr>))"
  by (simp add: syncTitle_def Let_def)

lemma title_inv_queue [simp]:
  "title_inv slides (st\<lparr>queuedTitleIndex := q\<rparr>) = title_inv slides st"
  by (cases "(slides, st, tweens st)" rule: phase_inv.cases)
    (simp_all add: title_inv_def displays_def)

lemma syncTitle_inv:
  "title_inv slides st \<Longrightarrow> title_inv slides (syncTitle slides x d st)"
  by (simp add: syncTitle_unfold Let_def animateTitleChange_inv)

lemma completeTween_out:
  "tweens st = [SlideOut i d] \<Longrightarrow>
   completeTween slides 0 st =
     st\<lparr>titleY := inY d, tweens := [SlideIn i d], titleText := title (slides ! nat i)\<rparr>"
  by (simp add: completeTween_def slideOutComplete_def title_defs)

lemma completeTween_in:
  "tweens st = [SlideIn i d] \<Longrightarrow>
   completeTween slides 0 st =
     slideInComplete slides i d (st\<lparr>titleY := 0, tweens := []\<rparr>)"
  by (simp add: completeTween_def)

lemma completeTween_disabled:
  "length (tweens st) \<le> k \<Longrightarrow> completeTween slides k st = st"
  by (simp add: completeTween_def)

lemma slideInComplete_inv:
  assumes "title_inv slides (st\<lparr>currentTitleIndex := i, isAnimating := False\<rparr>)"
  shows "title_inv slides (slideInComplete slides i d st)"
  using assms
  by (simp add: slideInComplete_def Let_def animateTitleChange_inv split: option.split)

lemma completeTween_inv:
  assumes "title_inv slides st"
  shows "title_inv slides (completeTween slides k st)"
proof (cases "k < length (tweens st)")
  case False
  with assms show ?thesis by (simp add: completeTween_disabled)
next
  case True
  from assms show ?thesis
  proof (cases rule: title_inv_cases)
    case idle
    with True show ?thesis by simp
  next
    case (sliding_out i d)
    with True show ?thesis
      by (simp add: completeTween_out title_inv_def displays_def)
  next
    case (sliding_in i d)
    then have "title_inv slides
        (st\<lparr>titleY := 0, tweens := [], currentTitleIndex := i, isAnimating := False\<rparr>)"
      by (simp add: title_inv_def displays_def)
    with sliding_in True show ?thesis
      by (simp add: completeTween_in slideInComplete_inv)
  qed
qed

lemma titleStep_inv:
  "title_inv slides st \<Longrightarrow> title_inv slides (titleStep slides st e)"
  by (cases e) (simp_all add: animateTitleChange_inv syncTitle_inv completeTween_inv)

lemma titleRun_inv:
  "title_inv slides st \<Longrightarrow> title_inv slides (titleRun slides st es)"
  by (induction es arbitrary: st) (simp_all add: titleStep_inv)

lemma titleInit_inv:
  "slides \<noteq> [] \<Longrightarrow> title_inv slides (titleInit (title (slides ! 0)) (url (slides ! 0)))"
  by (simp add: title_inv_def titleInit_def validIndex_def displays_def)

lemma reachable_inv:
  assumes "reachable slides st" "slides \<noteq> []"
  shows "title_inv slides st"
  using assms by (induction rule: reachable.induct) (simp_all add: titleInit_inv titleStep_inv)

lemma drainsTo_simps [simp]:
  "drainsTo slides i (st\<lparr>queuedTitleIndex := None\<rparr>) = i"
  "drainsTo slides i (st\<lparr>titleY := y\<rparr>) = drainsTo slides i st"
  "drainsTo slides i (st\<lparr>tweens := tws\<rparr>) = drainsTo slides i st"
  "drainsTo slides i (st\<lparr>titleText := t\<rparr>) = drainsTo slides i st"
  "drainsTo slides i (st\<lparr>linkHref := h\<rparr>) = drainsTo slides i st"
  "drainsTo slides i (st\<lparr>isAnimating := b\<rparr>) = drainsTo slides i st"
  "drainsTo slides i (st\<lparr>currentTitleIndex := c\<rparr>) = drainsTo slides i st"
  by (simp_all add: drainsTo_def)

lemma completeTween_in_settled:
  assumes "tweens st = [SlideIn i d]" "drainsTo slides i st = i"
  shows "completeTween slides 0 st =
    st\<lparr>titleY := 0, tweens := [], currentTitleIndex := i, isAnimating := False,
       queuedTitleIndex := (if queuedTitleIndex st = Some i then Some i else None)\<rparr>"
  using assms
  by (auto simp add: completeTween_in slideInComplete_def Let_def drainsTo_def
      animateTitleChange_invalid split: option.splits if_splits)

lemma completeTween_in_drain:
  assumes "tweens st = [SlideIn i d]" "drainsTo slides i st \<noteq> i"
  shows "completeTween slides 0 st =
    st\<lparr>titleY := 0, currentTitleIndex := i, queuedTitleIndex := None, isAnimating := True,
       tweens := [SlideOut (drainsTo slides i st) d],
       linkHref := url (slides ! nat (drainsTo slides i st))\<rparr>"
  using assms
  by (auto simp add: completeTween_in slideInComplete_def Let_def drainsTo_def
      animateTitleChange_start split: option.splits if_splits)

section \<open>Settling\<close>

lemma pendingSteps_le: "pendingSteps slides st \<le> 4"
  by (simp add: pendingSteps_def split: list.split tween.split)

lemma completeTween_idle:
  "tweens st = [] \<Longrightarrow> completeTween slides k st = st"
  by (simp add: completeTween_def)

lemma completeTween_progress:
  assumes "title_inv slides st"
  shows "pendingSteps slides (completeTween slides 0 st) = pendingSteps slides st - 1 \<and>
    settlesAt slides (completeTween slides 0 st) = settlesAt slides st"
  using assms
proof (cases rule: title_inv_cases)
  case idle
  then show ?thesis by (simp add: completeTween_idle pendingSteps_def)
next
  case (sliding_out i d)
  then show ?thesis
    by (simp add: completeTween_out pendingSteps_def settlesAt_def)
next
  case (sliding_in i d)
  then show ?thesis
    by (cases "drainsTo slides i st = i")
      (simp_all add: completeTween_in_settled completeTween_in_drain pendingSteps_def
        settlesAt_def)
qed

lemma pendingSteps_zero:
  assumes "title_inv slides st"
  shows "pendingSteps slides st = 0 \<longleftrightarrow> tweens st = []"
  using assms by (cases rule: title_inv_cases) (simp_all add: pendingSteps_def)

lemma title_inv_animating:
  assumes "title_inv slides st"
  shows "isAnimating st \<longleftrightarrow> tweens st \<noteq> []"
  using assms by (cases rule: title_inv_cases) simp_all

lemma completions_progress:
  assumes "title_inv slides st"
  shows "pendingSteps slides (titleRun slides st (replicate n (TweenDone 0))) =
      pendingSteps slides st - n \<and>
    settlesAt slides (titleRun slides st (replicate n (TweenDone 0))) = settlesAt slides st"
  using assms
proof (induction n arbitrary: st)
  case 0
  then show ?case by simp
next
  case (Suc n)
  from Suc.prems have "title_inv slides (completeTween slides 0 st)"
    by (rule completeTween_inv)
  from Suc.IH [OF this] completeTween_progress [OF Suc.prems] show ?case by simp
qed

lemma completions_idle:
  assumes "title_inv slides st" "pendingSteps slides st \<le> n"
  shows "tweens (titleRun slides st (replicate n (TweenDone 0))) = [] \<and>
    currentTitleIndex (titleRun slides st (replicate n (TweenDone 0))) = settlesAt slides st"
proof -
  let ?st' = "titleRun slides st (replicate n (TweenDone 0))"
  have inv: "title_inv slides ?st'" using assms(1) by (rule titleRun_inv)
  from completions_progress [OF assms(1), of n] assms(2)
  have "pendingSteps slides ?st' = 0" and s: "settlesAt slides ?st' = settlesAt slides st"
    by simp_all
  then have "tweens ?st' = []" using pendingSteps_zero [OF inv] by simp
  with s show ?thesis by (simp add: settlesAt_def)
qed

lemma settle_idle:
  assumes "title_inv slides st"
  shows "tweens (settle slides st) = []" "currentTitleIndex (settle slides st) = settlesAt slides st"
    "title_inv slides (settle slides st)"
  using completions_idle [OF assms pendingSteps_le] titleRun_inv [OF assms]
  by (simp_all add: settle_def)

lemma title_inv_idleD:
  assumes "title_inv slides st" "tweens st = []"
  shows "\<not> isAnimating st \<and> titleText st = title (slides ! nat (currentTitleIndex st)) \<and>
    linkHref st = url (slides ! nat (currentTitleIndex st)) \<and> titleY st = 0"
  using assms by (simp add: title_inv_def displays_def)

lemma syncTitle_settlesAt_aux:
  assumes "title_inv slides st" "validIndex slides c"
  shows "settlesAt slides
      (if c = currentTitleIndex st then st
       else if isAnimating st then st\<lparr>queuedTitleIndex := Some c\<rparr>
       else animateTitleChange slides c d (st\<lparr>queuedTitleIndex := Some c\<rparr>)) =
    (if c = currentTitleIndex st then settlesAt slides st else c)"
  using assms(1)
proof (cases rule: title_inv_cases)
  case idle
  with assms(2) show ?thesis
    by (simp add: animateTitleChange_start settlesAt_def drainsTo_def)
next
  case (sliding_out i e)
  with assms(2) show ?thesis by (simp add: settlesAt_def drainsTo_def)
next
  case (sliding_in i e)
  with assms(2) show ?thesis by (simp add: settlesAt_def drainsTo_def)
qed

section \<open>The threshold rule\<close>

lemma getTitleIndexForProgress_closed:
  assumes "x \<le> real (length slides) - 1"
  shows "getTitleIndexForProgress slides x = min \<lfloor>x + 1 / 2\<rfloor> (int (length slides) - 1)"
proof -
  from assms have "x < real (length slides)" by linarith
  then have "\<lfloor>x\<rfloor> < int (length slides)" by (simp add: floor_less_iff)
  then have le: "\<lfloor>x\<rfloor> \<le> int (length slides) - 1" by simp
  show ?thesis
  proof (cases "x - of_int \<lfloor>x\<rfloor> \<ge> 1 / 2")
    case True
    then have "\<lfloor>x + 1 / 2\<rfloor> = \<lfloor>x\<rfloor> + 1" by (intro floor_unique) linarith+
    with True show ?thesis
      by (simp add: getTitleIndexForProgress_def Let_def slider_defs)
  next
    case False
    then have "\<lfloor>x + 1 / 2\<rfloor> = \<lfloor>x\<rfloor>" by (intro floor_unique) linarith+
    with False le show ?thesis
      by (simp add: getTitleIndexForProgress_def Let_def slider_defs)
  qed
qed

lemma getTitleIndexForProgress_valid:
  assumes "0 \<le> x" "x \<le> real (length slides) - 1"
  shows "validIndex slides (getTitleIndexForProgress slides x)"
proof -
  from assms have "0 < length slides" by (cases slides) simp_all
  moreover from assms(1) have "0 \<le> \<lfloor>x + 1 / 2\<rfloor>" by simp
  ultimately show ?thesis
    unfolding getTitleIndexForProgress_closed [OF assms(2)] validIndex_def by simp
qed

lemma getTitleIndexForProgress_mono:
  assumes "x \<le> y" "y \<le> real (length slides) - 1"
  shows "getTitleIndexForProgress slides x \<le> getTitleIndexForProgress slides y"
proof -
  from assms have x: "x \<le> real (length slides) - 1" by simp
  from assms(1) have "\<lfloor>x + 1 / 2\<rfloor> \<le> \<lfloor>y + 1 / 2\<rfloor>" by (intro floor_mono) simp
  then show ?thesis
    unfolding getTitleIndexForProgress_closed [OF x] getTitleIndexForProgress_closed [OF assms(2)]
    by linarith
qed

lemma getTitleIndexForProgress_near:
  assumes "x \<le> real (length slides) - 1"
  shows "\<bar>real_of_int (getTitleIndexForProgress slides x) - x\<bar> \<le> 1 / 2"
proof -
  have f: "real_of_int \<lfloor>x + 1 / 2\<rfloor> \<le> x + 1 / 2" "x + 1 / 2 < real_of_int \<lfloor>x + 1 / 2\<rfloor> + 1"
    by linarith+
  from assms have "x + 1 / 2 < real_of_int (int (length slides))" by simp
  then have "\<lfloor>x + 1 / 2\<rfloor> < int (length slides)" by (simp only: floor_less_iff)
  then have m: "min \<lfloor>x + 1 / 2\<rfloor> (int (length slides) - 1) = \<lfloor>x + 1 / 2\<rfloor>" by simp
  show ?thesis
    unfolding getTitleIndexForProgress_closed [OF assms] m using f by linarith
qed

section \<open>Sample runs\<close>

lemma sample_init_sel [simp]:
  "tweens (titleInit a b) = []" "currentTitleIndex (titleInit a b) = 0"
  "queuedTitleIndex (titleInit a b) = None" "isAnimating (titleInit a b) = False"
  by (simp_all add: titleInit_def)

lemma sample_init_inv: "title_inv sampleSlides (titleInit ''First'' ''/first'')"
  using titleInit_inv [of sampleSlides] by (simp add: sampleSlides_def)

lemma sample_threshold [simp]:
  "getTitleIndexForProgress sampleSlides (49 / 100) = 0"
  "getTitleIndexForProgress sampleSlides (1 / 2) = 1"
  "getTitleIndexForProgress sampleSlides (3 / 5) = 1"
  "getTitleIndexForProgress sampleSlides (2 / 5) = 0"
  by (simp_all add: getTitleIndexForProgress_def slider_defs Let_def)

lemma syncTitle_heading:
  assumes "title_inv slides st" "validIndex slides (getTitleIndexForProgress slides x)"
  shows "settlesAt slides (syncTitle slides x d st) =
    (if getTitleIndexForProgress slides x = currentTitleIndex st then settlesAt slides st
     else getTitleIndexForProgress slides x)"
  unfolding syncTitle_unfold Let_def using assms by (rule syncTitle_settlesAt_aux)

section \<open>Properties of the title machine\<close>

text \<open>
  \<^bold>\<open>C4.\<close> In every state the page can reach from its initial state (slide 0 shown, nothing
  queued, no animation), by requests, handler updates and tween completions in any
  order, the current title index is the index of a slide, at most one tween of the
  title is alive, \<^verbatim>\<open>isAnimating\<close> holds exactly while a tween is alive, and when no
  animation runs the title shows the text of the current slide at rest and the link
  points to its url.
\<close>

theorem title_machine_invariant:
  assumes "slides \<noteq> []" "reachable slides st"
  shows "validIndex slides (currentTitleIndex st) \<and> length (tweens st) \<le> 1 \<and>
    (isAnimating st \<longleftrightarrow> tweens st \<noteq> []) \<and>
    (\<not> isAnimating st \<longrightarrow>
       titleText st = title (slides ! nat (currentTitleIndex st)) \<and>
       linkHref st = url (slides ! nat (currentTitleIndex st)) \<and> titleY st = 0)"
proof -
  from assms have inv: "title_inv slides st" by (simp add: reachable_inv)
  then have "length (tweens st) \<le> 1" by (cases rule: title_inv_cases) simp_all
  with inv title_inv_animating [OF inv] title_inv_idleD [OF inv] show ?thesis
    by (simp add: title_inv_def)
qed

theorem title_machine_invariant_witness:
  "sampleSlides \<noteq> [] \<and>
   reachable sampleSlides (syncTitle sampleSlides (3 / 5) Down (titleInit ''First'' ''/first'')) \<and>
   isAnimating (syncTitle sampleSlides (3 / 5) Down (titleInit ''First'' ''/first'')) \<and>
   tweens (syncTitle sampleSlides (3 / 5) Down (titleInit ''First'' ''/first'')) = [SlideOut 1 Down]"
proof -
  have r: "reachable sampleSlides
      (titleStep sampleSlides (titleInit (title (sampleSlides ! 0)) (url (sampleSlides ! 0)))
        (Sync (3 / 5) Down))"
    by (rule reachable.step [OF reachable.init]) (simp add: enabled_def)
  have ne: "sampleSlides \<noteq> []" by (simp add: sampleSlides_def)
  have t: "tweens (syncTitle sampleSlides (3 / 5) Down (titleInit ''First'' ''/first'')) =
      [SlideOut 1 Down]"
    by (simp add: syncTitle_def getTitleIndexForProgress_def titleInit_def slider_defs
        animateTitleChange_def title_defs Let_def)
  from title_machine_invariant [OF ne r] r ne t show ?thesis
    by (simp add: sampleSlides_def)
qed

text \<open>
  \<^bold>\<open>C9.\<close> No animation runs forever: from any state that satisfies the invariant, four tween
  completions without a new request leave the machine idle, and the slide it then
  shows is the one \<open>settlesAt\<close> names: the target of the running animation, or the
  queued index if that is a different valid index.
\<close>

theorem title_settles:
  assumes "title_inv slides st"
  shows "\<not> isAnimating (settle slides st) \<and> tweens (settle slides st) = [] \<and>
    currentTitleIndex (settle slides st) = settlesAt slides st \<and>
    titleText (settle slides st) = title (slides ! nat (settlesAt slides st)) \<and>
    linkHref (settle slides st) = url (slides ! nat (settlesAt slides st)) \<and>
    titleY (settle slides st) = 0"
proof -
  have inv: "title_inv slides (settle slides st)"
    unfolding settle_def using assms by (rule titleRun_inv)
  from completions_idle [OF assms pendingSteps_le] title_inv_idleD [OF inv] show ?thesis
    by (simp add: settle_def)
qed

theorem title_settles_witness:
  "title_inv sampleSlides
     (titleRun sampleSlides (titleInit ''First'' ''/first'') [Request 1 Down, Request 2 Up]) \<and>
   currentTitleIndex (settle sampleSlides
     (titleRun sampleSlides (titleInit ''First'' ''/first'') [Request 1 Down, Request 2 Up])) = 2 \<and>
   titleText (settle sampleSlides
     (titleRun sampleSlides (titleInit ''First'' ''/first'') [Request 1 Down, Request 2 Up])) = ''Third''"
proof -
  have i: "title_inv sampleSlides (titleInit ''First'' ''/first'')"
    using titleInit_inv [of sampleSlides] by (simp add: sampleSlides_def)
  then have inv: "title_inv sampleSlides
     (titleRun sampleSlides (titleInit ''First'' ''/first'') [Request 1 Down, Request 2 Up])"
    by (rule titleRun_inv)
  have s: "settlesAt sampleSlides
     (titleRun sampleSlides (titleInit ''First'' ''/first'') [Request 1 Down, Request 2 Up]) = 2"
    by (simp add: animateTitleChange_def titleInit_def title_defs settlesAt_def drainsTo_def
        validIndex_def)
  from title_settles [OF inv] inv s show ?thesis
    by (simp add: sampleSlides_def)
qed

text \<open>
  \<^bold>\<open>C11.\<close> Requests that arrive while an animation runs are coalesced: after a request for
  \<open>a\<close> from an idle state and two more requests, for \<open>b\<close> and then \<open>c\<close>, the
  animation towards \<open>a\<close> ends with \<open>a\<close> current, exactly one more animation is
  started, towards \<open>c\<close> and in the direction of the first request, the queue is
  empty, and after it the machine is idle showing \<open>c\<close>; \<open>b\<close> is never shown.
\<close>

theorem title_latest_request_wins:
  assumes "title_inv slides st" "tweens st = []"
    "validIndex slides a" "a \<noteq> currentTitleIndex st"
    "validIndex slides b" "b \<noteq> currentTitleIndex st"
    "validIndex slides c" "c \<noteq> currentTitleIndex st" "c \<noteq> a"
  shows "currentTitleIndex (titleRun slides st
        [Request a d, Request b d1, Request c d2, TweenDone 0, TweenDone 0]) = a \<and>
    tweens (titleRun slides st
        [Request a d, Request b d1, Request c d2, TweenDone 0, TweenDone 0]) = [SlideOut c d] \<and>
    queuedTitleIndex (titleRun slides st
        [Request a d, Request b d1, Request c d2, TweenDone 0, TweenDone 0]) = None \<and>
    currentTitleIndex (titleRun slides st
        [Request a d, Request b d1, Request c d2,
         TweenDone 0, TweenDone 0, TweenDone 0, TweenDone 0]) = c \<and>
    tweens (titleRun slides st
        [Request a d, Request b d1, Request c d2,
         TweenDone 0, TweenDone 0, TweenDone 0, TweenDone 0]) = [] \<and>
    titleText (titleRun slides st
        [Request a d, Request b d1, Request c d2,
         TweenDone 0, TweenDone 0, TweenDone 0, TweenDone 0]) = title (slides ! nat c)"
  using assms title_inv_idleD [OF assms(1,2)]
  by (simp add: animateTitleChange_start animateTitleChange_busy completeTween_out
      completeTween_in_drain completeTween_in_settled drainsTo_def)

theorem title_latest_request_wins_witness:
  "title_inv sampleSlides (titleInit ''First'' ''/first'') \<and>
   currentTitleIndex (titleRun sampleSlides (titleInit ''First'' ''/first'')
     [Request 1 Down, Request 1 Up, Request 2 Up,
      TweenDone 0, TweenDone 0, TweenDone 0, TweenDone 0]) = 2 \<and>
   tweens (titleRun sampleSlides (titleInit ''First'' ''/first'')
     [Request 1 Down, Request 1 Up, Request 2 Up, TweenDone 0, TweenDone 0]) = [SlideOut 2 Down]"
proof -
  have i: "title_inv sampleSlides (titleInit ''First'' ''/first'')"
    using titleInit_inv [of sampleSlides] by (simp add: sampleSlides_def)
  have t: "tweens (titleInit ''First'' ''/first'') = []" by (simp add: titleInit_def)
  have c: "currentTitleIndex (titleInit ''First'' ''/first'') = 0" by (simp add: titleInit_def)
  from title_latest_request_wins [OF i t, of 1 1 2 Down Up Up] i show ?thesis
    by (simp add: validIndex_def c)
qed

text \<open>
  \<^bold>\<open>C14.\<close> What the update handler achieves for the title: when the index the threshold rule
  asks for differs from the current index, the machine is afterwards heading for
  exactly that index, idle or not; when it equals the current index the handler
  changes nothing, so that a running animation keeps its target.
\<close>

theorem syncTitle_settlesAt:
  assumes "title_inv slides st" "0 \<le> x" "x \<le> real (length slides) - 1"
  shows "settlesAt slides (syncTitle slides x d st) =
    (if getTitleIndexForProgress slides x = currentTitleIndex st then settlesAt slides st
     else getTitleIndexForProgress slides x)"
  using assms(1) getTitleIndexForProgress_valid [OF assms(2,3)] by (rule syncTitle_heading)

theorem syncTitle_settlesAt_witness:
  "title_inv sampleSlides (titleInit ''First'' ''/first'') \<and> (0 :: real) \<le> 3 / 5 \<and>
   (3 / 5 :: real) \<le> real (length sampleSlides) - 1 \<and>
   settlesAt sampleSlides (syncTitle sampleSlides (3 / 5) Down (titleInit ''First'' ''/first'')) = 1"
  using syncTitle_settlesAt [OF sample_init_inv, of "3 / 5" Down] sample_init_inv
  by simp

text \<open>
  \<^bold>\<open>C15.\<close> The title can come to rest on the wrong slide: if an update starts an animation
  and the next update asks for the index that is still current (the user scrolled
  back before the animation ended), the second update is ignored, the animation
  completes, and the machine settles on the index of the first update, which is not
  the index the threshold rule gives for the last reported progress.
\<close>

theorem title_stale_after_reversal:
  assumes "title_inv slides st" "tweens st = []"
    "0 \<le> x" "x \<le> real (length slides) - 1"
    "getTitleIndexForProgress slides x \<noteq> currentTitleIndex st"
    "getTitleIndexForProgress slides y = currentTitleIndex st"
  shows "currentTitleIndex (settle slides (titleRun slides st [Sync x d, Sync y d'])) =
      getTitleIndexForProgress slides x \<and>
    currentTitleIndex (settle slides (titleRun slides st [Sync x d, Sync y d'])) \<noteq>
      getTitleIndexForProgress slides y"
proof -
  let ?st1 = "syncTitle slides x d st"
  have inv1: "title_inv slides ?st1" using assms(1) by (rule syncTitle_inv)
  from assms(5) have s1: "settlesAt slides ?st1 = getTitleIndexForProgress slides x"
    by (simp add: syncTitle_heading [OF assms(1) getTitleIndexForProgress_valid [OF assms(3,4)]])
  from assms(1,2,5) getTitleIndexForProgress_valid [OF assms(3,4)] title_inv_idleD [OF assms(1,2)]
  have c1: "currentTitleIndex ?st1 = currentTitleIndex st"
    by (simp add: syncTitle_unfold Let_def animateTitleChange_start)
  with assms(6) have "syncTitle slides y d' ?st1 = ?st1"
    by (simp add: syncTitle_unfold Let_def)
  with completions_idle [OF inv1 pendingSteps_le] s1 assms(5,6) show ?thesis
    by (simp add: settle_def)
qed

theorem title_stale_after_reversal_witness:
  "title_inv sampleSlides (titleInit ''First'' ''/first'') \<and>
   currentTitleIndex (settle sampleSlides
     (titleRun sampleSlides (titleInit ''First'' ''/first'') [Sync (3 / 5) Down, Sync (2 / 5) Up])) = 1 \<and>
   getTitleIndexForProgress sampleSlides (2 / 5) = 0"
  using title_stale_after_reversal [OF sample_init_inv, of "3 / 5" "2 / 5" Down Up] sample_init_inv
  by simp

text \<open>
  \<^bold>\<open>C23.\<close> The threshold rule picks the slide nearest to the image progress: for a progress
  between \<open>0\<close> and the last slide index the result is a valid index, equals
  \<open>min (floor (x + 1/2)) (N - 1)\<close>, differs from the progress by at most one half,
  and is monotone in the progress.
\<close>

theorem getTitleIndexForProgress_nearest:
  assumes "0 \<le> x" "x \<le> y" "y \<le> real (length slides) - 1"
  shows "validIndex slides (getTitleIndexForProgress slides x) \<and>
    getTitleIndexForProgress slides x = min \<lfloor>x + 1 / 2\<rfloor> (int (length slides) - 1) \<and>
    \<bar>real_of_int (getTitleIndexForProgress slides x) - x\<bar> \<le> 1 / 2 \<and>
    getTitleIndexForProgress slides x \<le> getTitleIndexForProgress slides y"
proof -
  from assms have x: "x \<le> real (length slides) - 1" by simp
  from getTitleIndexForProgress_valid [OF assms(1) x] getTitleIndexForProgress_closed [OF x]
    getTitleIndexForProgress_near [OF x] getTitleIndexForProgress_mono [OF assms(2,3)]
  show ?thesis by simp
qed

theorem getTitleIndexForProgress_nearest_witness:
  "(0 :: real) \<le> 49 / 100 \<and> (49 / 100 :: real) \<le> 1 / 2 \<and>
   (1 / 2 :: real) \<le> real (length sampleSlides) - 1 \<and>
   getTitleIndexForProgress sampleSlides (49 / 100) = 0 \<and>
   getTitleIndexForProgress sampleSlides (1 / 2) = 1"
  using getTitleIndexForProgress_nearest [of "49 / 100" "1 / 2" sampleSlides]
  by simp

text \<open>
  \<^bold>\<open>C34.\<close> A request for the index that is already current, for a negative index or for an
  index beyond the last slide changes nothing, whether an animation runs or not.
\<close>

theorem animateTitleChange_refused:
  "animateTitleChange slides (currentTitleIndex st) d st = st \<and>
   animateTitleChange slides (- 1 - int n) d st = st \<and>
   animateTitleChange slides (int (length slides) + int n) d st = st"
  by (simp add: animateTitleChange_invalid validIndex_def)

end
