(* ===== verification/Scroll_Update.thy ===== *)
theory Scroll_Update
  imports Progress_Mapper Strip_Renderer Title_Machine
begin

text \<open>
  The update handler of \<^verbatim>\<open>src/script.js\<close> (the \<^verbatim>\<open>onUpdate\<close> callback, lines
  203--291) and the page it works on. The page is the state of the title machine,
  the document of the renderer and the variable \<^verbatim>\<open>lastImageProgress\<close> (line 192).
  One call maps the scroll fraction to an image progress, derives the scroll
  direction from the progress of the previous call, asks the title machine for the
  title the threshold rule selects, repaints every slide, and stores the progress.

  A call that throws leaves the page as it was (the exception of the mapper is
  raised before the first assignment), so the handler returns either an error or
  the new page. The guard \<^verbatim>\<open>typeof imageProgress === "number"\<close> of line 206 holds
  for every value the mapper can return, so it is not a branch of the model. One
  value differs: the script would run the body with \<^verbatim>\<open>NaN\<close>, which has no
  counterpart among the reals; the model lets the handler stop with the outcome
  \<open>NotANumber\<close> and the page unchanged. That outcome is proved unreachable on the
  table the script builds, so no property of the handler depends on the choice. The page receives two kinds of events, scroll updates and tween
  completions; \<open>deliver\<close> gives the page after one event, \<open>pageRun\<close> after a
  sequence of them.
\<close>

section \<open>The page\<close>

record page =
  titleMachine :: titleState
  pageDom :: dom
  lastImageProgress :: real

definition pageInit :: "slide list \<Rightarrow> page" where
  "pageInit slides =
     \<lparr>titleMachine = titleInit (title (slides ! 0)) (url (slides ! 0)),
      pageDom = buildDom slides,
      lastImageProgress = 0\<rparr>"

section \<open>The handler\<close>

definition onUpdate :: "slide list \<Rightarrow> real \<Rightarrow> page \<Rightarrow> page js_result" where
  "onUpdate slides progress pg =
     (case calculateImageProgress (transitionRanges slides) progress of
        Inl e \<Rightarrow> Inl e
      | Inr imageProgress \<Rightarrow>
          (let scrollDirection = (if imageProgress > lastImageProgress pg then Down else Up);
               tm = syncTitle slides imageProgress scrollDirection (titleMachine pg);
               d = renderDom slides imageProgress (pageDom pg)
           in Inr \<lparr>titleMachine = tm, pageDom = d, lastImageProgress = imageProgress\<rparr>))"

section \<open>Events\<close>

datatype pageEvent = ScrollUpdate real | TweenComplete nat

fun pageStep :: "slide list \<Rightarrow> page \<Rightarrow> pageEvent \<Rightarrow> page js_result" where
  "pageStep slides pg (ScrollUpdate progress) = onUpdate slides progress pg"
| "pageStep slides pg (TweenComplete k) =
     Inr (pg\<lparr>titleMachine := completeTween slides k (titleMachine pg)\<rparr>)"

definition deliver :: "slide list \<Rightarrow> page \<Rightarrow> pageEvent \<Rightarrow> page" where
  "deliver slides pg e = (case pageStep slides pg e of Inl err \<Rightarrow> pg | Inr pg' \<Rightarrow> pg')"

definition pageRun :: "slide list \<Rightarrow> page \<Rightarrow> pageEvent list \<Rightarrow> page" where
  "pageRun slides pg es = foldl (deliver slides) pg es"

section \<open>Invariant\<close>

definition page_inv :: "slide list \<Rightarrow> page \<Rightarrow> bool" where
  "page_inv slides pg \<longleftrightarrow>
     title_inv slides (titleMachine pg) \<and>
     wellBuilt slides (pageDom pg) \<and>
     0 \<le> lastImageProgress pg \<and> lastImageProgress pg \<le> real (length slides - 1)"

section \<open>One call of the handler\<close>

lemma onUpdate_returns:
  assumes "2 \<le> length slides"
  shows "onUpdate slides s pg =
    Inr \<lparr>titleMachine =
           syncTitle slides (progressSpec slides s)
             (if progressSpec slides s > lastImageProgress pg then Down else Up)
             (titleMachine pg),
         pageDom = paintedDom slides (progressSpec slides s) (pageDom pg),
         lastImageProgress = progressSpec slides s\<rparr>"
  by (simp add: onUpdate_def calculateImageProgress_closed [OF assms] renderDom_paintedDom)

lemma onUpdate_throws:
  assumes "length slides \<le> 1"
  shows "onUpdate slides s pg = Inl TypeError"
proof -
  from assms have e: "transitionRanges slides = []" by simp
  show ?thesis unfolding onUpdate_def calculateImageProgress_def e by simp
qed

lemma progressSpec_valid:
  assumes "2 \<le> length slides"
  shows "0 \<le> progressSpec slides s" "progressSpec slides s \<le> real (length slides) - 1"
  using progressSpec_bounds [of slides s] assms by (simp_all add: of_nat_diff)

lemma syncTitle_idem:
  "syncTitle slides x d' (syncTitle slides x d st) = syncTitle slides x d st"
proof (cases "validIndex slides (getTitleIndexForProgress slides x)")
  case True
  then show ?thesis
    by (cases "isAnimating st")
      (simp_all add: syncTitle_unfold Let_def animateTitleChange_start animateTitleChange_busy)
next
  case False
  then show ?thesis
    by (simp add: syncTitle_unfold Let_def animateTitleChange_invalid)
qed

lemma page_inv_onUpdate:
  assumes "page_inv slides pg" "onUpdate slides s pg = Inr pg'"
  shows "page_inv slides pg'"
proof (cases "2 \<le> length slides")
  case True
  from assms(2) progressSpec_valid [OF True, of s] assms(1) show ?thesis
    unfolding onUpdate_returns [OF True]
    by (auto simp: page_inv_def syncTitle_inv wellBuilt_paintedDom of_nat_diff)
next
  case False
  with assms(2) onUpdate_throws [of slides s pg] show ?thesis by simp
qed

lemma page_inv_deliver:
  assumes "page_inv slides pg"
  shows "page_inv slides (deliver slides pg e)"
proof (cases e)
  case (ScrollUpdate s)
  with assms page_inv_onUpdate [OF assms, of s] show ?thesis
    by (simp add: deliver_def split: sum.split)
next
  case (TweenComplete k)
  with assms show ?thesis
    by (simp add: deliver_def page_inv_def completeTween_inv)
qed

lemma page_inv_pageRun:
  "page_inv slides pg \<Longrightarrow> page_inv slides (pageRun slides pg es)"
  unfolding pageRun_def by (induction es arbitrary: pg) (simp_all add: page_inv_deliver)

lemma page_inv_pageInit:
  "slides \<noteq> [] \<Longrightarrow> page_inv slides (pageInit slides)"
  by (simp add: page_inv_def pageInit_def titleInit_inv wellBuilt_buildDom)

lemma pageRun_Cons: "pageRun slides pg (e # es) = pageRun slides (deliver slides pg e) es"
  by (simp add: pageRun_def)

lemma pageRun_completions:
  "pageRun slides pg (map TweenComplete ks) =
     pg\<lparr>titleMachine := titleRun slides (titleMachine pg) (map TweenDone ks)\<rparr>"
  unfolding pageRun_def by (induction ks arbitrary: pg) (simp_all add: deliver_def)

lemma sample_progress_half: "progressSpec sampleSlides (1 / 2) = 1"
  by (simp add: progressSpec_def totalScrollDistance_eq slider_defs clamp_def)

lemma sample_progress_values:
  "progressSpec sampleSlides (9 / 26) = 3 / 5" "progressSpec sampleSlides (7 / 26) = 2 / 5"
  by (simp_all add: progressSpec_def totalScrollDistance_eq slider_defs clamp_def)

section \<open>Properties of the handler\<close>

text \<open>
  \<^bold>\<open>C3.\<close> With at least two slides a call of the handler always returns, and the page it
  returns is described by the contracts of the three components: the stored
  progress is the clamped linear map \<open>progressSpec\<close> of the scroll fraction, the
  document is the one \<open>paintedDom\<close> prescribes for that progress, and the title
  machine has received one request for the title of that progress, in direction
  down exactly if the progress is larger than the stored one.
\<close>

theorem onUpdate_refines:
  assumes "2 \<le> length slides"
  shows "\<exists>pg'. onUpdate slides s pg = Inr pg' \<and>
    lastImageProgress pg' = progressSpec slides s \<and>
    pageDom pg' = paintedDom slides (progressSpec slides s) (pageDom pg) \<and>
    titleMachine pg' =
      syncTitle slides (progressSpec slides s)
        (if lastImageProgress pg < progressSpec slides s then Down else Up) (titleMachine pg)"
  by (simp add: onUpdate_returns [OF assms])

theorem onUpdate_refines_witness:
  "2 \<le> length sampleSlides \<and>
   (\<exists>pg'. onUpdate sampleSlides (1 / 2) (pageInit sampleSlides) = Inr pg' \<and>
      lastImageProgress pg' = 1 \<and>
      pageDom pg' = paintedDom sampleSlides 1 (buildDom sampleSlides))"
  using onUpdate_refines [of sampleSlides "1 / 2" "pageInit sampleSlides"]
  by (auto simp: sample_progress_half pageInit_def)

text \<open>
  \<^bold>\<open>C17.\<close> The handler fails exactly when there are fewer than two slides: the mapper then
  reads the first entry of an empty table and the call ends with a \<^verbatim>\<open>TypeError\<close>
  before anything is written. It never computes with a value that is not a number,
  because every window of the table the script builds has positive width.
\<close>

theorem onUpdate_failure:
  "(onUpdate slides s pg = Inl TypeError \<longleftrightarrow> length slides \<le> 1) \<and>
   onUpdate slides s pg \<noteq> Inl NotANumber"
proof (cases "2 \<le> length slides")
  case True
  then show ?thesis by (simp add: onUpdate_returns)
next
  case False
  then have "length slides \<le> 1" by simp
  then show ?thesis by (simp add: onUpdate_throws)
qed

text \<open>
  \<^bold>\<open>C25.\<close> A call of the handler with the scroll fraction of the previous call changes
  nothing: the document, the stored progress and the state of the title machine
  are those the previous call left.
\<close>

theorem onUpdate_idempotent:
  assumes "onUpdate slides s pg = Inr pg'"
  shows "onUpdate slides s pg' = Inr pg'"
proof (cases "2 \<le> length slides")
  case True
  from assms show ?thesis
    unfolding onUpdate_returns [OF True]
    by (auto simp: syncTitle_idem paintedDom_overwrites)
next
  case False
  with assms onUpdate_throws [of slides s pg] show ?thesis by simp
qed

theorem onUpdate_idempotent_witness:
  "\<exists>pg'. onUpdate sampleSlides (1 / 2) (pageInit sampleSlides) = Inr pg' \<and>
     onUpdate sampleSlides (1 / 2) pg' = Inr pg'"
proof -
  from onUpdate_returns [of sampleSlides "1 / 2" "pageInit sampleSlides"]
  obtain pg' where pg': "onUpdate sampleSlides (1 / 2) (pageInit sampleSlides) = Inr pg'"
    by simp
  from onUpdate_idempotent [OF pg'] pg' show ?thesis by blast
qed

end
