(* ===== verification/Title_Spec.thy ===== *)
theory Title_Spec
  imports Title_Machine
begin

text \<open>
  The title state machine as its description states it: two phases, idle and
  animating, one pending slot, and the triggers \<open>requestChange\<close>, the request made
  on a scroll update, and the end of an animation. The description gives
  \<open>requestChange\<close> and the end of an animation; how a scroll update uses the
  pending slot (\<open>requestFromScroll\<close>: the slot is written before the request is
  made) is taken from the handler, lines 214--219. The machine of
  \<open>Title_Machine\<close> implements it: \<open>absOf\<close> forgets the page and keeps of the live
  tweens only the animation they belong to, the completion of a slide-out tween is
  a silent step, and every other event of the implementation is the corresponding
  step of the description.
\<close>

section \<open>The abstract machine\<close>

datatype titlePhase = Idle | Animating int direction

record absTitle =
  absCurrent :: int
  absPhase :: titlePhase
  absPending :: "int option"

definition requestChange :: "slide list \<Rightarrow> int \<Rightarrow> direction \<Rightarrow> absTitle \<Rightarrow> absTitle" where
  "requestChange slides targetIndex d a =
     (if targetIndex = absCurrent a \<or> \<not> validIndex slides targetIndex then a
      else case absPhase a of
             Animating i e \<Rightarrow> a\<lparr>absPending := Some targetIndex\<rparr>
           | Idle \<Rightarrow> a\<lparr>absPhase := Animating targetIndex d\<rparr>)"

definition finishAnimation :: "slide list \<Rightarrow> absTitle \<Rightarrow> absTitle" where
  "finishAnimation slides a =
     (case absPhase a of
        Idle \<Rightarrow> a
      | Animating i d \<Rightarrow>
          (let a1 = a\<lparr>absCurrent := i, absPhase := Idle\<rparr>
           in case absPending a of
                None \<Rightarrow> a1
              | Some q \<Rightarrow>
                  if q \<noteq> i then requestChange slides q d (a1\<lparr>absPending := None\<rparr>) else a1))"

definition requestFromScroll :: "slide list \<Rightarrow> real \<Rightarrow> direction \<Rightarrow> absTitle \<Rightarrow> absTitle" where
  "requestFromScroll slides x d a =
     (let c = getTitleIndexForProgress slides x
      in if c = absCurrent a then a
         else case absPhase a of
                Idle \<Rightarrow> requestChange slides c d (a\<lparr>absPending := Some c\<rparr>)
              | Animating i e \<Rightarrow> a\<lparr>absPending := Some c\<rparr>)"

datatype specEvent = Change int direction | Scroll real direction | Finish | Silent

fun specStep :: "slide list \<Rightarrow> absTitle \<Rightarrow> specEvent \<Rightarrow> absTitle" where
  "specStep slides a (Change i d) = requestChange slides i d a"
| "specStep slides a (Scroll x d) = requestFromScroll slides x d a"
| "specStep slides a Finish = finishAnimation slides a"
| "specStep slides a Silent = a"

fun specRun :: "slide list \<Rightarrow> absTitle \<Rightarrow> specEvent list \<Rightarrow> absTitle" where
  "specRun slides a [] = a"
| "specRun slides a (e # es) = specRun slides (specStep slides a e) es"

section \<open>Abstraction\<close>

fun phaseOf :: "tween list \<Rightarrow> titlePhase" where
  "phaseOf [] = Idle"
| "phaseOf (SlideOut i d # tws) = Animating i d"
| "phaseOf (SlideIn i d # tws) = Animating i d"

definition absOf :: "titleState \<Rightarrow> absTitle" where
  "absOf st =
     \<lparr>absCurrent = currentTitleIndex st, absPhase = phaseOf (tweens st),
      absPending = queuedTitleIndex st\<rparr>"

fun specEventOf :: "titleState \<Rightarrow> titleEvent \<Rightarrow> specEvent" where
  "specEventOf st (Request i d) = Change i d"
| "specEventOf st (Sync x d) = Scroll x d"
| "specEventOf st (TweenDone k) =
     (if k < length (tweens st)
      then (case tweens st ! k of SlideOut i d \<Rightarrow> Silent | SlideIn i d \<Rightarrow> Finish)
      else Silent)"

fun specTrace :: "slide list \<Rightarrow> titleState \<Rightarrow> titleEvent list \<Rightarrow> specEvent list" where
  "specTrace slides st [] = []"
| "specTrace slides st (e # es) = specEventOf st e # specTrace slides (titleStep slides st e) es"

section \<open>Simulation\<close>

lemma absOf_sel [simp]:
  "absCurrent (absOf st) = currentTitleIndex st"
  "absPhase (absOf st) = phaseOf (tweens st)"
  "absPending (absOf st) = queuedTitleIndex st"
  by (simp_all add: absOf_def)

lemma absOf_animateTitleChange:
  assumes "title_inv slides st"
  shows "absOf (animateTitleChange slides i d st) = requestChange slides i d (absOf st)"
proof (cases "validIndex slides i \<and> i \<noteq> currentTitleIndex st")
  case False
  then show ?thesis
    by (auto simp: requestChange_def animateTitleChange_invalid)
next
  case True
  from assms show ?thesis
  proof (cases rule: title_inv_cases)
    case idle
    with True show ?thesis
      by (simp add: animateTitleChange_start requestChange_def absOf_def)
  next
    case (sliding_out j e)
    with True show ?thesis
      by (simp add: animateTitleChange_busy requestChange_def absOf_def)
  next
    case (sliding_in j e)
    with True show ?thesis
      by (simp add: animateTitleChange_busy requestChange_def absOf_def)
  qed
qed

lemma absOf_syncTitle:
  assumes "title_inv slides st"
  shows "absOf (syncTitle slides x d st) = requestFromScroll slides x d (absOf st)"
proof -
  let ?c = "getTitleIndexForProgress slides x"
  have q: "title_inv slides (st\<lparr>queuedTitleIndex := Some ?c\<rparr>)" using assms by simp
  have a: "absOf (st\<lparr>queuedTitleIndex := Some ?c\<rparr>) = (absOf st)\<lparr>absPending := Some ?c\<rparr>"
    by (simp add: absOf_def)
  from assms show ?thesis
  proof (cases rule: title_inv_cases)
    case idle
    then show ?thesis
      by (simp add: syncTitle_unfold requestFromScroll_def Let_def absOf_animateTitleChange [OF q] a)
  next
    case (sliding_out j e)
    then show ?thesis
      by (simp add: syncTitle_unfold requestFromScroll_def Let_def a)
  next
    case (sliding_in j e)
    then show ?thesis
      by (simp add: syncTitle_unfold requestFromScroll_def Let_def a)
  qed
qed

lemma absOf_completeTween:
  assumes "title_inv slides st"
  shows "absOf (completeTween slides k st) =
    specStep slides (absOf st) (specEventOf st (TweenDone k))"
proof (cases "k < length (tweens st)")
  case False
  then show ?thesis by (simp add: completeTween_disabled)
next
  case True
  from assms show ?thesis
  proof (cases rule: title_inv_cases)
    case idle
    with True show ?thesis by simp
  next
    case (sliding_out i d)
    with True show ?thesis by (simp add: completeTween_out absOf_def)
  next
    case (sliding_in i d)
    then have inv': "title_inv slides
        (st\<lparr>titleY := 0, tweens := [], currentTitleIndex := i, isAnimating := False,
            queuedTitleIndex := None\<rparr>)"
      by (simp add: title_inv_def displays_def)
    from sliding_in True show ?thesis
      by (simp add: completeTween_in slideInComplete_def finishAnimation_def Let_def
          absOf_animateTitleChange [OF inv'] split: option.split)
        (simp add: absOf_def)
  qed
qed

lemma absOf_titleStep:
  assumes "title_inv slides st"
  shows "absOf (titleStep slides st e) = specStep slides (absOf st) (specEventOf st e)"
  using assms
  by (cases e) (simp_all add: absOf_animateTitleChange absOf_syncTitle absOf_completeTween)

lemma absOf_titleRun:
  assumes "title_inv slides st"
  shows "absOf (titleRun slides st es) = specRun slides (absOf st) (specTrace slides st es)"
  using assms
  by (induction es arbitrary: st) (simp_all add: absOf_titleStep titleStep_inv)

section \<open>Refinement\<close>

text \<open>
  \<^bold>\<open>C5.\<close> The title machine of the script implements the two-phase machine of its
  description. Along every run from a state that satisfies the invariant, the
  abstraction of the state reached is the state the abstract machine reaches on
  the corresponding abstract events: a request is \<open>requestChange\<close>, a request of
  the handler is \<open>requestFromScroll\<close>, the completion of a slide-in tween is the
  end of the animation, and the completion of a slide-out tween is not visible.
\<close>

theorem title_machine_refines_spec:
  assumes "title_inv slides st"
  shows "absOf (titleRun slides st es) = specRun slides (absOf st) (specTrace slides st es) \<and>
    title_inv slides (titleRun slides st es)"
  using assms by (simp add: absOf_titleRun titleRun_inv)

theorem title_machine_refines_spec_witness:
  "title_inv sampleSlides (titleInit ''First'' ''/first'') \<and>
   specTrace sampleSlides (titleInit ''First'' ''/first'')
     [Request 1 Down, Request 2 Up, TweenDone 0, TweenDone 0] =
     [Change 1 Down, Change 2 Up, Silent, Finish] \<and>
   absOf (titleRun sampleSlides (titleInit ''First'' ''/first'')
     [Request 1 Down, Request 2 Up, TweenDone 0, TweenDone 0]) =
     \<lparr>absCurrent = 1, absPhase = Animating 2 Down, absPending = None\<rparr>"
proof -
  have t: "specTrace sampleSlides (titleInit ''First'' ''/first'')
     [Request 1 Down, Request 2 Up, TweenDone 0, TweenDone 0] =
     [Change 1 Down, Change 2 Up, Silent, Finish]"
    by (simp add: titleInit_def animateTitleChange_def completeTween_def slideOutComplete_def
        title_defs Let_def)
  have a: "absOf (titleInit ''First'' ''/first'') =
      \<lparr>absCurrent = 0, absPhase = Idle, absPending = None\<rparr>"
    by (simp add: absOf_def titleInit_def)
  from title_machine_refines_spec [OF sample_init_inv,
      of "[Request 1 Down, Request 2 Up, TweenDone 0, TweenDone 0]"] sample_init_inv
  show ?thesis
    unfolding t a
    by (simp add: requestChange_def finishAnimation_def validIndex_def)
qed

end
