(* ===== verification/Spec2Isabelle.thy ===== *)
theory Spec2Isabelle
  imports Scroll_Update Title_Spec
begin

text \<open>
  \<^bold>\<open>The program.\<close> \<^verbatim>\<open>src/script.js\<close> drives a scroll-synchronised slide show. A pinned
  section of the page shows a list of slides (image, title, link). While the user
  scrolls through the section, the scroll driver calls \<^verbatim>\<open>onUpdate\<close> with a scroll
  fraction in \<open>[0, 1]\<close>. The handler turns the fraction into an \<^emph>\<open>image progress\<close>
  (integer part: the slide at the bottom of the stack, fractional part: how far the
  next slide is revealed), repaints the 25 horizontal strips of every slide after
  the first with clip polygons and scales derived from that progress, and asks a
  small state machine to animate the title and the link to the slide nearest to the
  progress. The title animation runs asynchronously in two tweens whose completion
  callbacks advance the machine. \<^verbatim>\<open>src/vite.config.js\<close> is static build
  configuration.

  \<^bold>\<open>The theories.\<close> Each follows the order of the code it models and keeps the
  names of the source.

  \<^item> \<open>Rage_Prelude\<close>: the outcomes of a JavaScript call that can fail (\<open>js_error\<close>,
    \<open>js_result\<close>), \<open>clamp\<close> with its order lemmas, floor lemmas, and the collections
    of unfolding rules the other theories add to.
  \<^item> \<open>Slider_Config\<close>: the \<open>slide\<close> record and the constants of lines 20--25 and
    61--69 (\<open>totalSlides\<close>, \<open>stripsCount\<close>, \<open>titleChangeThreshold\<close>,
    \<open>transitionCount\<close>, \<open>scrollDistancePerTransition\<close>, \<open>initialScrollDelay\<close>,
    \<open>finalScrollDelay\<close>, \<open>totalScrollDistance\<close>).
  \<^item> \<open>Transition_Ranges\<close>: the loop of lines 71--87 as the recursion \<open>buildRanges\<close> on
    the loop counter (terminating by the measure \<open>count - i\<close>) and the table
    \<open>transitionRanges\<close>. Lemmas: the loop equals the closed form \<open>rangesFrom\<close>; the
    table is a chain of windows of positive width (\<open>wf_ranges\<close>).
  \<^item> \<open>Progress_Mapper\<close>: \<^verbatim>\<open>calculateImageProgress\<close> (lines 89--120), the table passed
    as an argument, its scan loop as \<open>scanRanges\<close>. Lemmas: bounds and monotonicity
    on every well-formed table; on the script's table the function equals the
    clamped linear map \<open>progressSpec\<close>; the failures.
  \<^item> \<open>Image_Scale\<close>: \<^verbatim>\<open>getScaleForImage\<close> (lines 122--129) and its use by the handler
    (\<open>scaleAt\<close>). Lemmas: the four zones, bounds, and equality with the contract
    \<open>scaleSpec\<close>.
  \<^item> \<open>Strip_Geometry\<close>: the band of a strip (lines 45--52) and the three clip
    polygons of the handler (lines 242--277): \<open>openClip\<close>, \<open>activeClip\<close> with
    \<open>stripDelay\<close> and \<open>adjustedProgress\<close>, \<open>closedClip\<close>, selected by \<open>stripClip\<close>.
    Lemmas: closed forms of the bands, the staggered local progress, and equality
    with the contract \<open>clipSpec\<close>, whose moving edge is \<open>edgeAt\<close>.
  \<^item> \<open>Strip_Renderer\<close>: the elements as records, the document \<open>dom\<close> as a partial
    map from container number to container, the construction loop of lines 27--59
    (\<open>buildDom\<close>) and the rendering loop of lines 221--287 (\<open>renderDom\<close>). Lemmas: the
    loops computed entry by entry; \<open>renderDom\<close> equals the contract \<open>paintedDom\<close>;
    \<open>wellBuilt\<close> documents stay well built.
  \<^item> \<open>Title_Machine\<close>: \<^verbatim>\<open>animateTitleChange\<close> (lines 131--179) with its completion
    callbacks \<open>slideOutComplete\<close> and \<open>slideInComplete\<close>,
    \<^verbatim>\<open>getTitleIndexForProgress\<close> (lines 181--190), the title request of the handler
    (\<open>syncTitle\<close>, lines 212--219), the events \<open>titleEvent\<close> with \<open>titleStep\<close> and
    \<open>titleRun\<close>, the inductive set \<open>reachable\<close>. Lemmas: every operation preserves
    \<open>title_inv\<close>; the ranking function \<open>pendingSteps\<close> decreases with every tween
    completion while \<open>settlesAt\<close> stays the same; closed form of the threshold rule.
  \<^item> \<open>Title_Spec\<close>: the machine as the description of the program states it
    (\<open>requestChange\<close>, \<open>requestFromScroll\<close>, \<open>finishAnimation\<close> on a state with a
    phase and one pending slot), the abstraction \<open>absOf\<close>, and the simulation: each
    event of the implementation is one step of the abstract machine or a silent
    step.
  \<^item> \<open>Scroll_Update\<close>: the handler \<open>onUpdate\<close> (lines 203--291) on the \<open>page\<close> (title
    machine, document, \<^verbatim>\<open>lastImageProgress\<close>), the events of the page and
    \<open>pageRun\<close>. Lemmas: the handler in terms of the three contracts; \<open>page_inv\<close> is
    preserved.
  \<^item> This theory: the properties of the whole page.

  \<^bold>\<open>How the model corresponds to the code.\<close>

  \<^item> Numbers. JavaScript numbers are modelled as \<open>real\<close> where the code computes
    with fractions and as \<open>int\<close> where it computes indices; \<^verbatim>\<open>Math.floor\<close>,
    \<^verbatim>\<open>Math.min\<close> and \<^verbatim>\<open>Math.max\<close> are \<open>floor\<close>, \<open>min\<close> and \<open>max\<close>. Rounding of
    IEEE doubles is not modelled: the theorems are about the exact values.
  \<^item> Failures. A call that throws or produces \<^verbatim>\<open>NaN\<close> returns \<open>Inl\<close> of a
    \<open>js_error\<close>: \<open>TypeError\<close> for the property read on \<^verbatim>\<open>transitionRanges[0]\<close> of an
    empty table, \<open>NotANumber\<close> for the division \<open>0 / 0\<close> at a window of width zero.
    The second cannot happen on the table the script builds; in the handler it
    stands for a run of the body with \<^verbatim>\<open>NaN\<close> (which passes the \<^verbatim>\<open>typeof\<close>
    guard of line 206) and is modelled as a call that stops with the page
    unchanged.
  \<^item> State. The variables of the script and the parts of the document it writes
    are fields of records that the operations take and return. The document holds
    the transform of the first image, and opacity, clip polygons and image
    transforms of each container; CSS strings are kept as the numbers they print.
    \<^verbatim>\<open>document.getElementById\<close> is a lookup in a partial map, so the
    \<^verbatim>\<open>continue\<close> for a missing container is a branch of \<open>renderSlide\<close>.
  \<^item> Loops. The loops over transitions, slides and strips run over lists and
    finite index ranges and are total; no fuel is needed anywhere.
  \<^item> The animation library. Its code is not in the repository. Three calls are
    modelled from its documented behaviour: \<open>gsap_to\<close> adds a tween to the live
    tweens of the title, \<open>gsap_killTweensOf\<close> removes them without running
    callbacks, \<open>gsap_set\<close> writes the offset; \<open>completeTween\<close> is a tween reaching its
    end: the offset takes the end value, the tween disappears, its \<^verbatim>\<open>onComplete\<close>
    runs. Time is abstract: a run is a sequence of events, and any interleaving of
    scroll updates and tween completions is a run. Durations, easing and the
    intermediate offsets of a tween are not modelled.
  \<^item> Initial page. The title element is assumed to show the first slide's title
    and link when the script starts (the markup is not part of the sources);
    \<open>titleInit\<close> takes the two strings as arguments.

  \<^bold>\<open>What is proved.\<close> For the mapper, the scale rule, the strip geometry and the
  renderer: a refinement theorem each, stating that the code computes a closed-form
  contract, with bounds, monotonicity and absence of jumps derived from the
  contract. For the title machine: the invariant over all reachable states,
  termination of every animation chain (four completions always suffice: two per
  animation, and at most one queued animation follows), coalescing of requests,
  and the characterisation of where the machine is heading after a request of the
  handler. For the page: the handler always returns when there are at least two
  slides and fails with a \<open>TypeError\<close> otherwise; the page invariant over all runs;
  the end-to-end statement that an update followed by the completion of its
  animation shows the document and the title the scroll position calls for. Two
  theorems record behaviour that is probably unintended: the title can settle on
  a slide other than the one last asked for when the user scrolls back during an
  animation, in general and as a run of the page from its initial state.

  \<^bold>\<open>Not modelled.\<close> Smooth scrolling and the scroll driver (lines 1--14 and
  194--201: Lenis, the ticker, the configuration of the pinned section): they
  decide when the handler runs and with which fraction, which the model leaves
  arbitrary. Class names, the parent element of the containers and image loading.
  The build configuration.
\<close>

section \<open>Properties of the whole page\<close>

text \<open>
  \<^bold>\<open>C12.\<close> Whatever scroll updates and tween completions the page receives, in any order
  and number, from the state the script sets up: the title machine satisfies its
  invariant, every slide after the first has its container with 25 strips, and the
  stored image progress lies between \<open>0\<close> and the index of the last slide.
\<close>

theorem page_invariant:
  assumes "slides \<noteq> []"
  shows "page_inv slides (pageRun slides (pageInit slides) es)"
  using assms by (simp add: page_inv_pageRun page_inv_pageInit)

theorem page_invariant_witness:
  "sampleSlides \<noteq> [] \<and>
   page_inv sampleSlides
     (pageRun sampleSlides (pageInit sampleSlides) [ScrollUpdate (1 / 2), TweenComplete 0])"
  using page_invariant [of sampleSlides "[ScrollUpdate (1 / 2), TweenComplete 0]"]
  by simp

text \<open>
  \<^bold>\<open>C1.\<close> From a page whose title is at rest, one scroll update followed by the completion
  of the tweens it starts leaves the page showing what the scroll position calls
  for: the document painted for the progress \<open>progressSpec\<close> assigns to the scroll
  fraction, and the title at rest with the text of the slide the threshold rule
  selects for that progress.
\<close>

theorem scroll_then_settle:
  assumes "2 \<le> length slides" "page_inv slides pg" "tweens (titleMachine pg) = []"
  shows "\<exists>pg'. pageRun slides pg (ScrollUpdate s # replicate 4 (TweenComplete 0)) = pg' \<and>
    lastImageProgress pg' = progressSpec slides s \<and>
    pageDom pg' = paintedDom slides (progressSpec slides s) (pageDom pg) \<and>
    tweens (titleMachine pg') = [] \<and> \<not> isAnimating (titleMachine pg') \<and>
    currentTitleIndex (titleMachine pg') = getTitleIndexForProgress slides (progressSpec slides s) \<and>
    titleText (titleMachine pg') =
      title (slides ! nat (getTitleIndexForProgress slides (progressSpec slides s)))"
proof -
  let ?x = "progressSpec slides s"
  let ?d = "if ?x > lastImageProgress pg then Down else Up"
  let ?tm = "syncTitle slides ?x ?d (titleMachine pg)"
  from assms(2) have inv: "title_inv slides (titleMachine pg)" by (simp add: page_inv_def)
  then have inv1: "title_inv slides ?tm" by (rule syncTitle_inv)
  from assms(3) have "settlesAt slides (titleMachine pg) = currentTitleIndex (titleMachine pg)"
    by (simp add: settlesAt_def)
  with syncTitle_heading [OF inv getTitleIndexForProgress_valid [OF progressSpec_valid [OF assms(1)]],
      of s ?d]
  have heading: "settlesAt slides ?tm = getTitleIndexForProgress slides ?x" by simp
  have run: "pageRun slides pg (ScrollUpdate s # replicate 4 (TweenComplete 0)) =
      \<lparr>titleMachine = settle slides ?tm, pageDom = paintedDom slides ?x (pageDom pg),
       lastImageProgress = ?x\<rparr>"
    using pageRun_completions [of slides _ "replicate 4 0"]
    by (simp add: pageRun_Cons deliver_def onUpdate_returns [OF assms(1)] settle_def)
  from settle_idle [OF inv1] heading title_inv_idleD [of slides "settle slides ?tm"]
  show ?thesis unfolding run by simp
qed

theorem scroll_then_settle_witness:
  "2 \<le> length sampleSlides \<and> page_inv sampleSlides (pageInit sampleSlides) \<and>
   tweens (titleMachine (pageInit sampleSlides)) = [] \<and>
   titleText (titleMachine (pageRun sampleSlides (pageInit sampleSlides)
     (ScrollUpdate (1 / 2) # replicate 4 (TweenComplete 0)))) = ''Second'' \<and>
   lastImageProgress (pageRun sampleSlides (pageInit sampleSlides)
     (ScrollUpdate (1 / 2) # replicate 4 (TweenComplete 0))) = 1"
proof -
  have i: "page_inv sampleSlides (pageInit sampleSlides)"
    by (simp add: page_inv_pageInit)
  have t: "tweens (titleMachine (pageInit sampleSlides)) = []"
    by (simp add: pageInit_def)
  have g: "getTitleIndexForProgress sampleSlides 1 = 1"
    by (simp add: getTitleIndexForProgress_def slider_defs)
  have n: "title (sampleSlides ! Suc 0) = ''Second''"
    by (simp add: sampleSlides_def)
  from scroll_then_settle [OF _ i t, of "1 / 2"] i t show ?thesis
    by (simp add: sample_progress_half g n)
qed

text \<open>
  \<^bold>\<open>C18.\<close> The two ends of the pinned region. At scroll fraction \<open>0\<close> the image progress is
  \<open>0\<close>, the first image has scale \<open>1.25\<close> and every strip of every later slide
  is closed. At scroll fraction \<open>1\<close> the image progress is the index of the last
  slide and every strip of every later slide is fully open and visible.
\<close>

theorem scroll_to_ends:
  assumes "2 \<le> length slides" "wellBuilt slides (pageDom pg)"
    "2 \<le> n" "n \<le> int (length slides)" "j < nat stripsCount"
  shows "\<exists>pg0 c0 pg1 c1.
    onUpdate slides 0 pg = Inr pg0 \<and> lastImageProgress pg0 = 0 \<and>
    firstSlideImgTransform (pageDom pg0) = 5 / 4 \<and>
    containers (pageDom pg0) n = Some c0 \<and> clipPath (strips c0 ! j) = closedClip (int j) \<and>
    onUpdate slides 1 pg = Inr pg1 \<and> lastImageProgress pg1 = real (length slides - 1) \<and>
    containers (pageDom pg1) n = Some c1 \<and> opacity c1 = 1 \<and>
    clipPath (strips c1 ! j) = openClip (int j)"
proof -
  from assms(2-4) obtain c where c: "containers (pageDom pg) n = Some c"
    "length (strips c) = nat stripsCount"
    by (rule wellBuilt_container)
  with assms(5) have j: "j < length (strips c)" "validStrip (int j)"
    by (simp_all add: validStrip_def)
  from assms(1) have len: "0 < length slides" by linarith
  from assms(3) have "(0 :: real) \<le> of_int (n - 2)" by simp
  then have closed: "clipAt (n - 2) 0 (int j) = closedClip (int j)"
    using j(2) by (simp add: clipAt_future)
  from assms(4) len have "real_of_int (n - 2) + 1 \<le> real (length slides - 1)"
    by (simp add: of_nat_diff)
  then have opened: "clipAt (n - 2) (real (length slides - 1)) (int j) = openClip (int j)"
    using j(2) by (simp add: clipAt_past)
  from paintedDom_strip [OF assms(3,4) c(1) j(1), of 0]
  obtain c0 where c0: "containers (paintedDom slides 0 (pageDom pg)) n = Some c0"
    "strips c0 ! j = paintedStrip (n - 2) 0 j (strips c ! j)"
    by blast
  from paintedDom_strip [OF assms(3,4) c(1) j(1), of "real (length slides - 1)"]
  obtain c1 where c1: "containers (paintedDom slides (real (length slides - 1)) (pageDom pg)) n = Some c1"
    "opacity c1 = 1" "strips c1 ! j = paintedStrip (n - 2) (real (length slides - 1)) j (strips c ! j)"
    by blast
  have "firstSlideImgTransform (paintedDom slides 0 (pageDom pg)) = 5 / 4"
    by (simp add: paintedDom_def scaleAt_eq_scaleSpec scaleSpec_def clamp_def)
  with c0 c1 closed opened show ?thesis
    by (simp add: onUpdate_returns [OF assms(1)] progressSpec_zero progressSpec_one [OF len]
        paintedStrip_def)
qed

theorem scroll_to_ends_witness:
  "2 \<le> length sampleSlides \<and> wellBuilt sampleSlides (pageDom (pageInit sampleSlides)) \<and>
   (\<exists>pg1 c1. onUpdate sampleSlides 1 (pageInit sampleSlides) = Inr pg1 \<and>
      lastImageProgress pg1 = 2 \<and> containers (pageDom pg1) 3 = Some c1 \<and>
      clipPath (strips c1 ! 7) = openClip 7)"
proof -
  have w: "wellBuilt sampleSlides (pageDom (pageInit sampleSlides))"
    by (simp add: pageInit_def wellBuilt_buildDom)
  from scroll_to_ends [OF _ w, of 3 7] w show ?thesis
    by (auto simp: slider_defs)
qed

text \<open>
  \<^bold>\<open>C19.\<close> What is drawn depends continuously on the scroll position. Between two scroll
  fractions \<open>s \<le> s'\<close> the image progress grows by at most
  \<open>(s' - s) * totalScrollDistance / 1000\<close>; the moving edge of every strip only
  moves up, by at most \<open>8.2\<close> percent of the image height per unit of progress,
  and the scale of every image only shrinks, by at most one eighth per unit of
  progress. In particular nothing jumps where one transition ends and the next
  begins.
\<close>

theorem scroll_continuity:
  assumes "2 \<le> length slides" "s \<le> s'" "validStrip j"
  shows "\<exists>x x'. calculateImageProgress (transitionRanges slides) s = Inr x \<and>
    calculateImageProgress (transitionRanges slides) s' = Inr x' \<and>
    x \<le> x' \<and> x' - x \<le> (s' - s) * totalScrollDistance slides / 1000 \<and>
    clipAt t x j = bandPolygon (100 - 4 * of_int j) (edgeAt t x j) \<and>
    clipAt t x' j = bandPolygon (100 - 4 * of_int j) (edgeAt t x' j) \<and>
    edgeAt t x' j \<le> edgeAt t x j \<and>
    edgeAt t x j - edgeAt t x' j \<le> (41 / 5) * ((s' - s) * totalScrollDistance slides / 1000) \<and>
    scaleAt k x' \<le> scaleAt k x \<and>
    scaleAt k x - scaleAt k x' \<le> (s' - s) * totalScrollDistance slides / 1000 / 8"
proof -
  let ?x = "progressSpec slides s" and ?x' = "progressSpec slides s'"
  from assms(1) have ne: "slides \<noteq> []" by auto
  from progressSpec_mono [OF ne assms(2)] have le: "?x \<le> ?x'" .
  from progressSpec_lipschitz [OF ne assms(2)]
  have lip: "?x' - ?x \<le> (s' - s) * totalScrollDistance slides / 1000"
    by (simp add: slider_defs)
  from edgeAt_lipschitz [OF le, of t j] lip
  have "edgeAt t ?x j - edgeAt t ?x' j \<le> (41 / 5) * ((s' - s) * totalScrollDistance slides / 1000)"
    by simp
  moreover from scaleSpec_lipschitz [OF le, of k] lip
  have "scaleAt k ?x - scaleAt k ?x' \<le> (s' - s) * totalScrollDistance slides / 1000 / 8"
    by (simp add: scaleAt_eq_scaleSpec)
  ultimately show ?thesis
    using assms(3) le lip edgeAt_antimono [OF le, of t j] scaleSpec_antimono [OF le, of k]
    by (simp add: calculateImageProgress_closed [OF assms(1)] clipAt_band scaleAt_eq_scaleSpec)
qed

theorem scroll_continuity_witness:
  "2 \<le> length sampleSlides \<and> (3 / 26 :: real) \<le> 1 / 2 \<and> validStrip 0 \<and>
   calculateImageProgress (transitionRanges sampleSlides) (3 / 26) = Inr 0 \<and>
   calculateImageProgress (transitionRanges sampleSlides) (1 / 2) = Inr 1 \<and>
   edgeAt 0 0 0 - edgeAt 0 1 0 \<le> (41 / 5) * ((1 / 2 - 3 / 26) * 2600 / 1000)"
proof -
  have "progressSpec sampleSlides (3 / 26) = 0"
    by (simp add: progressSpec_def totalScrollDistance_eq slider_defs clamp_def)
  with scroll_continuity [of sampleSlides "3 / 26" "1 / 2" 0 0 0] show ?thesis
    by (simp add: validStrip_def slider_defs calculateImageProgress_closed sample_progress_half
        totalScrollDistance_eq)
qed

text \<open>
  \<^bold>\<open>C16.\<close> A run of the page on which the title ends on the wrong slide. With three slides,
  the user scrolls to image progress \<open>0.6\<close> and back to \<open>0.4\<close> before the title
  animation has ended, and the animation then completes. The page is at rest with
  progress \<open>0.4\<close>, for which the threshold rule selects slide \<open>0\<close>, but the title
  shows the second slide and stays there until the next scroll update.
\<close>

theorem page_title_stale_run:
  "lastImageProgress (pageRun sampleSlides (pageInit sampleSlides)
      (ScrollUpdate (9 / 26) # ScrollUpdate (7 / 26) # replicate 4 (TweenComplete 0))) = 2 / 5 \<and>
   getTitleIndexForProgress sampleSlides (2 / 5) = 0 \<and>
   tweens (titleMachine (pageRun sampleSlides (pageInit sampleSlides)
      (ScrollUpdate (9 / 26) # ScrollUpdate (7 / 26) # replicate 4 (TweenComplete 0)))) = [] \<and>
   currentTitleIndex (titleMachine (pageRun sampleSlides (pageInit sampleSlides)
      (ScrollUpdate (9 / 26) # ScrollUpdate (7 / 26) # replicate 4 (TweenComplete 0)))) = 1 \<and>
   titleText (titleMachine (pageRun sampleSlides (pageInit sampleSlides)
      (ScrollUpdate (9 / 26) # ScrollUpdate (7 / 26) # replicate 4 (TweenComplete 0)))) = ''Second''"
proof -
  let ?tm = "titleRun sampleSlides (titleInit ''First'' ''/first'')
      [Sync (3 / 5) Down, Sync (2 / 5) Up]"
  have run: "pageRun sampleSlides (pageInit sampleSlides)
      (ScrollUpdate (9 / 26) # ScrollUpdate (7 / 26) # replicate 4 (TweenComplete 0)) =
    \<lparr>titleMachine = settle sampleSlides ?tm,
     pageDom = paintedDom sampleSlides (2 / 5) (buildDom sampleSlides),
     lastImageProgress = 2 / 5\<rparr>"
    using pageRun_completions [of sampleSlides _ "replicate 4 0"]
    by (simp add: pageRun_Cons deliver_def onUpdate_returns sample_progress_values settle_def
        pageInit_def paintedDom_overwrites)
  have inv: "title_inv sampleSlides ?tm"
    using sample_init_inv by (rule titleRun_inv)
  have s: "settlesAt sampleSlides ?tm = 1"
    by (simp add: syncTitle_unfold animateTitleChange_start validIndex_def settlesAt_def
        drainsTo_def)
  have n: "title (sampleSlides ! Suc 0) = ''Second''"
    by (simp add: sampleSlides_def)
  from settle_idle [OF inv] title_inv_idleD [of sampleSlides "settle sampleSlides ?tm"] s n
  show ?thesis unfolding run by simp
qed

end
